theory Spec2Isabelle
  imports Complex_Main "HOL-Library.Sublist"
begin

section \<open>Python values and exceptions\<close>

text \<open>
  The exceptions the modelled code can raise. A function that may raise returns
  \<open>error + 'a\<close>, with \<open>Inl\<close> the exception. A \<open>RuntimeError\<close> carries its message,
  because \<open>TransformedDimension.interval\<close> inspects it.
\<close>

datatype error =
    AssertionError
  | IndexError
  | KeyError
  | TypeError
  | ValueError
  | OverflowError
  | ZeroDivisionError
  | RuntimeError string

text \<open>Sequencing of two steps that may raise: the first exception wins.\<close>

definition ebind :: "error + 'a \<Rightarrow> ('a \<Rightarrow> error + 'b) \<Rightarrow> error + 'b" where
  "ebind m f = (case m of Inl e \<Rightarrow> Inl e | Inr x \<Rightarrow> f x)"

text \<open>
  A Python number is an \<open>int\<close> or a \<open>float\<close>. Floats are idealised as reals
  (no rounding, no overflow); the non-finite results of \<open>numpy.log\<close> are written out
  where the code can reach them.
\<close>

datatype pynum = PyInt int | PyFloat real

fun to_real :: "pynum \<Rightarrow> real" where
  "to_real (PyInt i) = real_of_int i"
| "to_real (PyFloat x) = x"

text \<open>Python's \<open>int(x)\<close> on a finite float truncates towards zero.\<close>

definition py_int :: "real \<Rightarrow> int" where
  "py_int x = (if x < 0 then \<lceil>x\<rceil> else \<lfloor>x\<rfloor>)"

section \<open>Budget computation (\<open>orion/algo/evolution_es.py\<close>)\<close>

type_synonym rung_budget = "int \<times> int"

text \<open>
  The loop of the \<open>reduction_factor == 1\<close> branch over \<open>range(min_resources,
  max_resources + 1)\<close>: the first level opens the schedule line with the population
  size, every later level is appended to \<open>budgets_eves[0]\<close> with \<open>pairs * 2\<close>.
\<close>

fun rf1_loop :: "int \<Rightarrow> int \<Rightarrow> int \<Rightarrow> int list \<Rightarrow> rung_budget list list
    \<Rightarrow> error + rung_budget list list" where
  "rf1_loop min_resources nums_population pairs [] budgets_eves = Inr budgets_eves"
| "rf1_loop min_resources nums_population pairs (i # rest) budgets_eves =
     (if i = min_resources
      then rf1_loop min_resources nums_population pairs rest
             (budgets_eves @ [[(nums_population, i)]])
      else (case budgets_eves of
              [] \<Rightarrow> Inl IndexError
            | line # others \<Rightarrow>
                rf1_loop min_resources nums_population pairs rest
                  ((line @ [(pairs * 2, i)]) # others)))"

text \<open>
  \<open>num_brackets = int(np.log(max_resources) / np.log(reduction_factor))\<close>, reached
  only when \<open>reduction_factor \<noteq> 1\<close>. \<open>np.log\<close> of a negative number is nan and of
  zero is \<open>-inf\<close>; \<open>int\<close> raises \<open>ValueError\<close> on nan and \<open>OverflowError\<close> on an
  infinity, and a finite number divided by \<open>-inf\<close> is a zero.
\<close>

definition num_brackets_of :: "real \<Rightarrow> real \<Rightarrow> error + int" where
  "num_brackets_of max_resources reduction_factor =
     (if max_resources < 0 \<or> reduction_factor < 0 then Inl ValueError
      else if max_resources = 0 \<and> reduction_factor = 0 then Inl ValueError
      else if max_resources = 0 then Inl OverflowError
      else if reduction_factor = 0 then Inr 0
      else Inr (py_int (ln max_resources / ln reduction_factor)))"

text \<open>
  The rungs of one Hyperband bracket: the body of the loop over \<open>bracket_id\<close>.
  (\<open>budgets_tab\<close>, kept by the source for display only, is left out.)
\<close>

definition bracket_budgets :: "real \<Rightarrow> real \<Rightarrow> int \<Rightarrow> int \<Rightarrow> rung_budget list" where
  "bracket_budgets max_resources reduction_factor num_brackets bracket_id =
     (let num_trials = py_int (real_of_int \<lceil>real_of_int
                          (py_int (real_of_int (num_brackets + 1) /
                                   real_of_int (num_brackets - bracket_id + 1))) *
                          reduction_factor ^ nat (num_brackets - bracket_id)\<rceil>);
          min_resources = max_resources / reduction_factor ^ nat (num_brackets - bracket_id)
      in map (\<lambda>i. (py_int (real_of_int num_trials / reduction_factor ^ nat i),
                    py_int (min_resources * reduction_factor ^ nat i)))
             [0 .. num_brackets - bracket_id])"

text \<open>
  The final loop over \<open>range(len(budgets[0]))\<close>: the resource levels of bracket 0
  with the counts overridden.
\<close>

fun eves_loop :: "int \<Rightarrow> int \<Rightarrow> rung_budget list \<Rightarrow> nat list \<Rightarrow> rung_budget list list
    \<Rightarrow> error + rung_budget list list" where
  "eves_loop nums_population pairs bracket0 [] budgets_eves = Inr budgets_eves"
| "eves_loop nums_population pairs bracket0 (i # rest) budgets_eves =
     (if i = 0
      then eves_loop nums_population pairs bracket0 rest
             (budgets_eves @ [[(nums_population, snd (bracket0 ! i))]])
      else (case budgets_eves of
              [] \<Rightarrow> Inl IndexError
            | line # others \<Rightarrow>
                eves_loop nums_population pairs bracket0 rest
                  ((line @ [(pairs * 2, snd (bracket0 ! i))]) # others)))"

text \<open>
  \<open>compute_budgets\<close>. With \<open>reduction_factor == 1\<close> the resources go through
  \<open>range\<close>, which accepts only \<open>int\<close>s. Otherwise bracket 0 of the Hyperband
  schedule is computed (with all the others) and \<open>budgets[0]\<close> raises \<open>IndexError\<close>
  when no bracket was built.
\<close>

definition compute_budgets :: "pynum \<Rightarrow> pynum \<Rightarrow> real \<Rightarrow> int \<Rightarrow> int
    \<Rightarrow> error + rung_budget list list" where
  "compute_budgets min_resources max_resources reduction_factor nums_population pairs =
     (if reduction_factor = 1 then
        (case (min_resources, max_resources) of
           (PyInt lo, PyInt hi) \<Rightarrow> rf1_loop lo nums_population pairs [lo .. hi] []
         | _ \<Rightarrow> Inl TypeError)
      else
        ebind (num_brackets_of (to_real max_resources) reduction_factor) (\<lambda>num_brackets.
          let budgets = map (bracket_budgets (to_real max_resources) reduction_factor num_brackets)
                            [0 .. num_brackets]
          in (case budgets of
                [] \<Rightarrow> Inl IndexError
              | bracket0 # _ \<Rightarrow>
                  eves_loop nums_population pairs bracket0 [0 ..< length bracket0] [])))"

section \<open>Transformers (\<open>orion/core/worker/transformer.py\<close>)\<close>

text \<open>
  A point of a dimension, as the transformers see it through \<open>numpy.asarray\<close>: a
  category, an integer, a float, or an array (a list of points, rectangular as numpy
  arrays are). Categories are values of a type of their own, \<open>'c\<close>: a number is never
  a key of \<open>Enumerate\<close>'s dictionary. A Python integer is unbounded; a float is a real
  (one that \<open>float64\<close> represents).
\<close>

datatype 'c pyval = Cat 'c | IntV int | FloatV real | Arr "'c pyval list"

fun leaves :: "'c pyval \<Rightarrow> 'c pyval list" where
  "leaves (Arr ps) = concat (map leaves ps)"
| "leaves p = [p]"

fun is_cat :: "'c pyval \<Rightarrow> bool" where
  "is_cat (Cat c) = True"
| "is_cat p = False"

fun is_float :: "'c pyval \<Rightarrow> bool" where
  "is_float (FloatV x) = True"
| "is_float p = False"

fun is_arr :: "'c pyval \<Rightarrow> bool" where
  "is_arr (Arr ps) = True"
| "is_arr p = False"

text \<open>The numeric value of a scalar (used only where no leaf is a category).\<close>

fun num_of :: "'c pyval \<Rightarrow> real" where
  "num_of (IntV i) = real_of_int i"
| "num_of (FloatV x) = x"
| "num_of p = 0"

text \<open>
  An operation that numpy applies to every element of an array, in order; the first
  element that raises ends it.
\<close>

fun sequence :: "(error + 'a) list \<Rightarrow> error + 'a list" where
  "sequence [] = Inr []"
| "sequence (m # ms) =
     (case m of
        Inl e \<Rightarrow> Inl e
      | Inr x \<Rightarrow> (case sequence ms of Inl e \<Rightarrow> Inl e | Inr xs \<Rightarrow> Inr (x # xs)))"

fun elementwise :: "('c pyval \<Rightarrow> error + 'c pyval) \<Rightarrow> 'c pyval \<Rightarrow> error + 'c pyval" where
  "elementwise f (Arr ps) =
     (case sequence (map (elementwise f) ps) of Inl e \<Rightarrow> Inl e | Inr qs \<Rightarrow> Inr (Arr qs))"
| "elementwise f p = f p"

subsection \<open>The transformer classes\<close>

text \<open>
  The type tags \<open>domain_type\<close> and \<open>target_type\<close> are strings or \<open>None\<close>.
  \<open>Compose\<close> holds its two attributes, \<open>composition\<close> (applied first) and \<open>apply\<close>.
\<close>

datatype 'c transformer =
    Identity "string option"
  | Compose "'c transformer" "'c transformer"
  | Reverse "'c transformer"
  | Quantize
  | Enumerate "'c list"
  | OneHotEncode int

fun domain_type :: "'c transformer \<Rightarrow> string option"
  and target_type :: "'c transformer \<Rightarrow> string option" where
  "domain_type (Identity d) = d"
| "domain_type (Compose composition app) = domain_type composition"
| "domain_type (Reverse t) = target_type t"
| "domain_type Quantize = Some ''real''"
| "domain_type (Enumerate cats) = Some ''categorical''"
| "domain_type (OneHotEncode n) = Some ''integer''"
| "target_type (Identity d) = d"
| "target_type (Compose composition app) =
     (let type_before = target_type composition; type_after = target_type app
      in if type_after \<noteq> None \<and> type_after \<noteq> Some [] then type_after else type_before)"
| "target_type (Reverse t) = domain_type t"
| "target_type Quantize = Some ''integer''"
| "target_type (Enumerate cats) = Some ''integer''"
| "target_type (OneHotEncode n) = Some ''real''"

text \<open>
  \<open>Quantize\<close> works on numpy arrays, whose integers are \<open>int64\<close> and whose floats
  are \<open>float64\<close> (as on 64-bit Linux). A \<open>float64\<close> keeps 53 significant bits:
  \<open>excess_bits n\<close> is the number of low bits of \<open>n\<close> that do not fit, and
  \<open>round_float64 i\<close> is the integer value of the float nearest to the integer \<open>i\<close>,
  ties to the even significand. A float outside the \<open>int64\<close> range is cast to the least
  \<open>int64\<close> (the result of the cast on x86-64).
\<close>

function excess_bits :: "nat \<Rightarrow> nat" where
  "excess_bits n = (if n < 2 ^ 53 then 0 else Suc (excess_bits (n div 2)))"
  by pat_completeness auto
termination
  by (relation "measure (\<lambda>n. n)") auto

declare excess_bits.simps [simp del]

definition round_float64 :: "int \<Rightarrow> int" where
  "round_float64 i =
     (let n = nat \<bar>i\<bar>; e = excess_bits n; q = n div 2 ^ e; r = n mod 2 ^ e;
          q' = (if 2 * r > 2 ^ e \<or> (2 * r = 2 ^ e \<and> odd q) then q + 1 else q)
      in sgn i * int (q' * 2 ^ e))"

definition cast_int64 :: "int \<Rightarrow> int" where
  "cast_int64 k = (if - (2 ^ 63) \<le> k \<and> k < 2 ^ 63 then k else - (2 ^ 63))"

text \<open>
  \<open>Quantize.transform\<close> is \<open>numpy.floor(numpy.asarray(point)).astype(int)\<close>: a float
  is floored and cast to \<open>int64\<close>; a Python \<open>int\<close> that fits an integer array becomes
  a float first (\<open>numpy.floor\<close> returns floats) and is then cast; a larger \<open>int\<close> gives
  an object array, which \<open>numpy.floor\<close> rejects.
  \<open>Quantize.reverse\<close> is \<open>numpy.asarray(transformed_point).astype(float)\<close>: an \<open>int\<close>
  becomes the nearest float, or is too large for one.
\<close>

fun Quantize_transform1 :: "'c pyval \<Rightarrow> error + 'c pyval" where
  "Quantize_transform1 (IntV i) =
     (if - (2 ^ 63) \<le> i \<and> i < 2 ^ 64 then Inr (IntV (cast_int64 (round_float64 i)))
      else Inl TypeError)"
| "Quantize_transform1 (FloatV x) = Inr (IntV (cast_int64 \<lfloor>x\<rfloor>))"
| "Quantize_transform1 p = Inl TypeError"

fun Quantize_reverse1 :: "'c pyval \<Rightarrow> error + 'c pyval" where
  "Quantize_reverse1 (IntV i) =
     (let r = round_float64 i
      in if \<bar>r\<bar> < 2 ^ 1024 then Inr (FloatV (real_of_int r)) else Inl OverflowError)"
| "Quantize_reverse1 (FloatV x) = Inr (FloatV x)"
| "Quantize_reverse1 p = Inl ValueError"

definition Quantize_transform :: "'c pyval \<Rightarrow> error + 'c pyval" where
  "Quantize_transform = elementwise Quantize_transform1"

definition Quantize_reverse :: "'c pyval \<Rightarrow> error + 'c pyval" where
  "Quantize_reverse = elementwise Quantize_reverse1"

text \<open>
  \<open>Enumerate\<close>: \<open>map_dict = {cat: i for i, cat in enumerate(categories)}\<close> keeps, for
  a category listed twice, its last index. \<open>categories[x]\<close> is Python list indexing:
  a negative index counts from the end, an index out of range raises \<open>IndexError\<close>.
\<close>

fun map_dict :: "'c list \<Rightarrow> nat \<Rightarrow> ('c \<rightharpoonup> int) \<Rightarrow> ('c \<rightharpoonup> int)" where
  "map_dict [] i m = m"
| "map_dict (cat # cats) i m = map_dict cats (Suc i) (m(cat \<mapsto> int i))"

fun Enumerate_transform1 :: "'c list \<Rightarrow> 'c pyval \<Rightarrow> error + 'c pyval" where
  "Enumerate_transform1 categories (Cat x) =
     (case map_dict categories 0 Map.empty x of
        None \<Rightarrow> Inl KeyError
      | Some i \<Rightarrow> Inr (IntV i))"
| "Enumerate_transform1 categories p = Inl KeyError"

fun Enumerate_reverse1 :: "'c list \<Rightarrow> 'c pyval \<Rightarrow> error + 'c pyval" where
  "Enumerate_reverse1 categories (IntV x) =
     (let n = int (length categories); j = (if x < 0 then n + x else x)
      in if 0 \<le> j \<and> j < n then Inr (Cat (categories ! nat j)) else Inl IndexError)"
| "Enumerate_reverse1 categories p = Inl TypeError"

definition Enumerate_transform :: "'c list \<Rightarrow> 'c pyval \<Rightarrow> error + 'c pyval" where
  "Enumerate_transform categories = elementwise (Enumerate_transform1 categories)"

definition Enumerate_reverse :: "'c list \<Rightarrow> 'c pyval \<Rightarrow> error + 'c pyval" where
  "Enumerate_reverse categories = elementwise (Enumerate_reverse1 categories)"

text \<open>
  \<open>OneHotEncode\<close>. \<open>transform\<close> first asserts, over the whole array, that every
  value is an integer in \<open>[0, num_cats)\<close>; up to two categories it returns the value as
  a float, otherwise it writes a 1 into a zero vector of width \<open>num_cats\<close> at the
  value, which numpy accepts only from an array of integer dtype.
\<close>

definition in_cats :: "int \<Rightarrow> 'c pyval \<Rightarrow> bool" where
  "in_cats num_cats p =
     (num_of p < real_of_int num_cats \<and> num_of p \<ge> 0 \<and> num_of p \<in> \<int>)"

definition one_hot :: "int \<Rightarrow> int \<Rightarrow> 'c pyval" where
  "one_hot num_cats i = Arr (map (\<lambda>k. FloatV (if int k = i then 1 else 0)) [0 ..< nat num_cats])"

fun one_hot1 :: "int \<Rightarrow> 'c pyval \<Rightarrow> error + 'c pyval" where
  "one_hot1 num_cats (IntV i) = Inr (one_hot num_cats i)"
| "one_hot1 num_cats p = Inl IndexError"

fun float1 :: "'c pyval \<Rightarrow> error + 'c pyval" where
  "float1 (IntV i) = Inr (FloatV (real_of_int i))"
| "float1 (FloatV x) = Inr (FloatV x)"
| "float1 p = Inl ValueError"

definition float_dtype :: "'c pyval \<Rightarrow> bool" where
  "float_dtype p = (leaves p = [] \<or> (\<exists>q \<in> set (leaves p). is_float q))"

definition OneHotEncode_transform :: "int \<Rightarrow> 'c pyval \<Rightarrow> error + 'c pyval" where
  "OneHotEncode_transform num_cats point =
     (if \<exists>q \<in> set (leaves point). is_cat q then Inl TypeError
      else if \<not> (\<forall>q \<in> set (leaves point). in_cats num_cats q) then Inl AssertionError
      else if num_cats \<le> 2 then elementwise float1 point
      else if float_dtype point then Inl IndexError
      else elementwise (one_hot1 num_cats) point)"

text \<open>
  \<open>point_.shape[-1]\<close>: a scalar has the empty shape, whose last entry does not exist.
\<close>

fun shape_last :: "'c pyval \<Rightarrow> error + nat" where
  "shape_last (Arr []) = Inr 0"
| "shape_last (Arr (Arr qs # ps)) = shape_last (Arr qs)"
| "shape_last (Arr (p # ps)) = Inr (Suc (length ps))"
| "shape_last p = Inl IndexError"

text \<open>\<open>argmax\<close> of a vector: the first index that holds the maximum.\<close>

definition argmax :: "real list \<Rightarrow> nat" where
  "argmax xs = length (takeWhile (\<lambda>x. x \<noteq> Max (set xs)) xs)"

fun argmax_last :: "'c pyval \<Rightarrow> error + 'c pyval" where
  "argmax_last (Arr ps) =
     (if ps = [] then Inl ValueError
      else if \<exists>p \<in> set ps. is_arr p
      then (case sequence (map argmax_last ps) of Inl e \<Rightarrow> Inl e | Inr qs \<Rightarrow> Inr (Arr qs))
      else if \<exists>p \<in> set ps. is_cat p then Inl TypeError
      else Inr (IntV (int (argmax (map num_of ps)))))"
| "argmax_last p = Inl IndexError"

fun threshold1 :: "'c pyval \<Rightarrow> error + 'c pyval" where
  "threshold1 (Cat c) = Inl TypeError"
| "threshold1 p = Inr (IntV (if num_of p > 0.5 then 1 else 0))"

fun zero1 :: "'c pyval \<Rightarrow> error + 'c pyval" where
  "zero1 p = Inr (IntV 0)"

definition OneHotEncode_reverse :: "int \<Rightarrow> 'c pyval \<Rightarrow> error + 'c pyval" where
  "OneHotEncode_reverse num_cats transformed_point =
     (if num_cats = 2 then elementwise threshold1 transformed_point
      else if num_cats = 1 then elementwise zero1 transformed_point
      else (case shape_last transformed_point of
              Inl e \<Rightarrow> Inl e
            | Inr w \<Rightarrow>
                if int w \<noteq> num_cats then Inl AssertionError
                else argmax_last transformed_point))"

text \<open>
  The methods \<open>transform\<close> and \<open>reverse\<close>, dispatched on the class. \<open>Compose\<close>
  applies \<open>composition\<close> first going forward and \<open>apply\<close> first going back;
  \<open>Reverse\<close> swaps the two methods of the transformer it wraps.
\<close>

fun transform :: "'c transformer \<Rightarrow> 'c pyval \<Rightarrow> error + 'c pyval"
  and reverse :: "'c transformer \<Rightarrow> 'c pyval \<Rightarrow> error + 'c pyval" where
  "transform (Identity d) point = Inr point"
| "transform (Compose composition app) point =
     (case transform composition point of Inl e \<Rightarrow> Inl e | Inr p \<Rightarrow> transform app p)"
| "transform (Reverse t) point = reverse t point"
| "transform Quantize point = Quantize_transform point"
| "transform (Enumerate categories) point = Enumerate_transform categories point"
| "transform (OneHotEncode num_cats) point = OneHotEncode_transform num_cats point"
| "reverse (Identity d) transformed_point = Inr transformed_point"
| "reverse (Compose composition app) transformed_point =
     (case reverse app transformed_point of Inl e \<Rightarrow> Inl e | Inr p \<Rightarrow> reverse composition p)"
| "reverse (Reverse t) transformed_point = transform t transformed_point"
| "reverse Quantize transformed_point = Quantize_reverse transformed_point"
| "reverse (Enumerate categories) transformed_point =
     Enumerate_reverse categories transformed_point"
| "reverse (OneHotEncode num_cats) transformed_point =
     OneHotEncode_reverse num_cats transformed_point"

text \<open>
  The constructors that assert. \<open>Reverse.__init__\<close> refuses a \<open>OneHotEncode\<close>.
  \<open>Compose.__init__\<close> pops the last transformer of the list as \<open>apply\<close>, composes
  the rest (or takes \<open>Identity(base_domain_type)\<close>), and asserts that the types meet.
\<close>

fun Reverse_init :: "'c transformer \<Rightarrow> error + 'c transformer" where
  "Reverse_init (OneHotEncode n) = Inl AssertionError"
| "Reverse_init t = Inr (Reverse t)"

definition Compose_check :: "'c transformer \<Rightarrow> 'c transformer \<Rightarrow> error + 'c transformer" where
  "Compose_check composition app =
     (if domain_type app = None \<or> target_type composition = domain_type app
      then Inr (Compose composition app) else Inl AssertionError)"

fun Compose_rev :: "'c transformer list \<Rightarrow> string option \<Rightarrow> error + 'c transformer" where
  "Compose_rev [] base_domain_type =
     Compose_check (Identity base_domain_type) (Identity None)"
| "Compose_rev [app] base_domain_type =
     Compose_check (Identity base_domain_type) app"
| "Compose_rev (app # rest) base_domain_type =
     (case Compose_rev rest base_domain_type of
        Inl e \<Rightarrow> Inl e
      | Inr composition \<Rightarrow> Compose_check composition app)"

definition Compose_init :: "'c transformer list \<Rightarrow> string option \<Rightarrow> error + 'c transformer" where
  "Compose_init transformers base_domain_type = Compose_rev (rev transformers) base_domain_type"

subsection \<open>Dimensions and transformed dimensions\<close>

text \<open>
  Modelled from the spec: \<open>Dimension\<close> and \<open>Space\<close> (module \<open>orion.algo.space\<close>)
  are consumed, not defined, by the transformer module. A dimension is the record of
  what the module reads of it: its name, its type tag, its categories, and its methods
  \<open>interval\<close> and \<open>__contains__\<close>, which are parameters here. A space is the list
  of its dimensions in iteration order, and \<open>register\<close> enforces name uniqueness.
\<close>

record 'c dimension =
  name :: string
  type :: string
  categories :: "'c list"
  interval :: "real \<Rightarrow> error + ('c pyval \<times> 'c pyval)"
  contains :: "'c pyval \<Rightarrow> error + bool"

record 'c transformed_dimension =
  original_dimension :: "'c dimension"
  transformer :: "'c transformer"

definition td_transform :: "'c transformed_dimension \<Rightarrow> 'c pyval \<Rightarrow> error + 'c pyval" where
  "td_transform self point = transform (transformer self) point"

definition td_reverse :: "'c transformed_dimension \<Rightarrow> 'c pyval \<Rightarrow> error + 'c pyval" where
  "td_reverse self transformed_point = reverse (transformer self) transformed_point"

text \<open>
  \<open>TransformedDimension.interval\<close>: a \<open>RuntimeError\<close> of the original dimension
  whose message holds \<open>Categories\<close> becomes the pair \<open>(-0.1, 1.1)\<close>; any other
  exception is raised again; otherwise both endpoints are transformed, the low one first.
\<close>

definition td_interval :: "'c transformed_dimension \<Rightarrow> real
    \<Rightarrow> error + ('c pyval \<times> 'c pyval)" where
  "td_interval self alpha =
     (case interval (original_dimension self) alpha of
        Inl (RuntimeError msg) \<Rightarrow>
          if sublist ''Categories'' msg then Inr (FloatV (- 0.1), FloatV 1.1)
          else Inl (RuntimeError msg)
      | Inl e \<Rightarrow> Inl e
      | Inr (low, high) \<Rightarrow>
          (case td_transform self low of
             Inl e \<Rightarrow> Inl e
           | Inr tlow \<Rightarrow>
               (case td_transform self high of
                  Inl e \<Rightarrow> Inl e
                | Inr thigh \<Rightarrow> Inr (tlow, thigh))))"

text \<open>
  \<open>TransformedDimension.__contains__\<close>: only an \<open>AssertionError\<close> of the reverse
  transformation is caught.
\<close>

definition td_contains :: "'c transformed_dimension \<Rightarrow> 'c pyval \<Rightarrow> error + bool" where
  "td_contains self point =
     (case td_reverse self point of
        Inl AssertionError \<Rightarrow> Inr False
      | Inl e \<Rightarrow> Inl e
      | Inr orig_point \<Rightarrow> contains (original_dimension self) orig_point)"

definition td_name :: "'c transformed_dimension \<Rightarrow> string" where
  "td_name self = name (original_dimension self)"

definition td_type :: "'c transformed_dimension \<Rightarrow> string option" where
  "td_type self =
     (let type' = target_type (transformer self)
      in if type' \<noteq> Some ''invariant'' then type' else Some (type (original_dimension self)))"

subsection \<open>\<open>build_required_space\<close>\<close>

text \<open>The argument \<open>requirements\<close> is a list, or one requirement that is wrapped.\<close>

datatype requirements = Single "string option" | Listed "string option list"

fun as_list :: "requirements \<Rightarrow> string option list" where
  "as_list (Listed rs) = rs"
| "as_list (Single r) = [r]"

text \<open>
  The body of the loop over the requirements: the chain of \<open>if\<close>/\<open>elif\<close> on the
  running type and the requirement, then the update of the running type from the last
  transformer (none yet: the \<open>IndexError\<close> is passed over).
\<close>

definition requirement_step :: "'c dimension \<Rightarrow> 'c transformer list \<times> string option
    \<Rightarrow> string option \<Rightarrow> error + ('c transformer list \<times> string option)" where
  "requirement_step dimen state requirement =
     (let (transformers, type') = state in
      ebind
        (if type' = Some ''real'' \<and> (requirement = Some ''real'' \<or> requirement = None)
         then Inr transformers
         else if type' = Some ''real'' \<and> requirement = Some ''integer''
         then Inr (transformers @ [Quantize])
         else if type' = Some ''integer'' \<and> (requirement = Some ''integer'' \<or> requirement = None)
         then Inr transformers
         else if type' = Some ''integer'' \<and> requirement = Some ''real''
         then ebind (Reverse_init Quantize) (\<lambda>r. Inr (transformers @ [r]))
         else if type' = Some ''categorical'' \<and> requirement = Some ''real''
         then Inr (transformers @ [Enumerate (categories dimen),
                                   OneHotEncode (int (length (categories dimen)))])
         else if type' = Some ''categorical'' \<and> requirement = Some ''integer''
         then Inr (transformers @ [Enumerate (categories dimen)])
         else if type' = Some ''categorical'' \<and> requirement = None
         then Inr transformers
         else Inl TypeError)
        (\<lambda>transformers'.
           Inr (transformers',
                if transformers' = [] then type'
                else (let last_type = target_type (last transformers')
                      in if last_type \<noteq> Some ''invariant'' then last_type else type'))))"

fun requirement_loop :: "'c dimension \<Rightarrow> string option list
    \<Rightarrow> 'c transformer list \<times> string option
    \<Rightarrow> error + ('c transformer list \<times> string option)" where
  "requirement_loop dimen [] state = Inr state"
| "requirement_loop dimen (requirement # rest) state =
     ebind (requirement_step dimen state requirement) (requirement_loop dimen rest)"

definition register :: "'c transformed_dimension list \<Rightarrow> 'c transformed_dimension
    \<Rightarrow> error + 'c transformed_dimension list" where
  "register space dimen =
     (if td_name dimen \<in> set (map td_name space) then Inl ValueError
      else Inr (space @ [dimen]))"

text \<open>The body of the loop over the dimensions of the original space.\<close>

definition wrap_dimension :: "string option list \<Rightarrow> 'c dimension
    \<Rightarrow> error + 'c transformed_dimension" where
  "wrap_dimension reqs dimen =
     ebind (requirement_loop dimen reqs ([], Some (type dimen))) (\<lambda>(transformers, type').
       ebind (Compose_init transformers (Some (type dimen))) (\<lambda>t.
         Inr \<lparr>original_dimension = dimen, transformer = t\<rparr>))"

fun dimension_loop :: "string option list \<Rightarrow> 'c dimension list
    \<Rightarrow> 'c transformed_dimension list \<Rightarrow> error + 'c transformed_dimension list" where
  "dimension_loop reqs [] space = Inr space"
| "dimension_loop reqs (dimen # rest) space =
     ebind (wrap_dimension reqs dimen) (\<lambda>tdim.
       ebind (register space tdim) (dimension_loop reqs rest))"

definition build_required_space :: "requirements \<Rightarrow> 'c dimension list
    \<Rightarrow> error + 'c transformed_dimension list" where
  "build_required_space reqs original_space = dimension_loop (as_list reqs) original_space []"

section \<open>The evolutionary bracket (\<open>orion/algo/evolution_es.py\<close>)\<close>

subsection \<open>Arrays, floats and random choice\<close>

text \<open>Reading and writing a list or array at an index that may be out of range.\<close>

definition nth_e :: "'a list \<Rightarrow> nat \<Rightarrow> error + 'a" where
  "nth_e xs i = (if i < length xs then Inr (xs ! i) else Inl IndexError)"

definition set_e :: "'a list \<Rightarrow> nat \<Rightarrow> 'a \<Rightarrow> error + 'a list" where
  "set_e xs i v = (if i < length xs then Inr (xs[i := v]) else Inl IndexError)"

text \<open>
  The objective values of the \<open>performance\<close> array are numpy floats: a real, an
  infinity (the array starts as \<open>np.inf\<close>) or nan. \<open><\<close> and \<open>>=\<close> are both false
  when a side is nan.
\<close>

datatype fl = NaN | NegInf | Fin real | PosInf

fun fl_lt :: "fl \<Rightarrow> fl \<Rightarrow> bool" where
  "fl_lt NaN y = False"
| "fl_lt x NaN = False"
| "fl_lt x NegInf = False"
| "fl_lt NegInf y = True"
| "fl_lt PosInf y = False"
| "fl_lt (Fin a) (Fin b) = (a < b)"
| "fl_lt (Fin a) PosInf = True"

fun fl_ge :: "fl \<Rightarrow> fl \<Rightarrow> bool" where
  "fl_ge NaN y = False"
| "fl_ge x NaN = False"
| "fl_ge x NegInf = True"
| "fl_ge NegInf y = False"
| "fl_ge PosInf y = True"
| "fl_ge (Fin a) (Fin b) = (a \<ge> b)"
| "fl_ge (Fin a) PosInf = False"

fun fl_add :: "fl \<Rightarrow> fl \<Rightarrow> fl" where
  "fl_add NaN y = NaN"
| "fl_add x NaN = NaN"
| "fl_add PosInf NegInf = NaN"
| "fl_add NegInf PosInf = NaN"
| "fl_add PosInf y = PosInf"
| "fl_add x PosInf = PosInf"
| "fl_add NegInf y = NegInf"
| "fl_add x NegInf = NegInf"
| "fl_add (Fin a) (Fin b) = Fin (a + b)"

fun fl_div :: "fl \<Rightarrow> nat \<Rightarrow> fl" where
  "fl_div (Fin a) n = Fin (a / real n)"
| "fl_div x n = x"

text \<open>
  \<open>np.random.choice(a, size, replace=False)\<close> takes the first \<open>size\<close> entries of a
  random permutation of the positions of \<open>a\<close>, and raises \<open>ValueError\<close> when \<open>a\<close> is
  too short. The generator is a parameter: \<open>permutation g n\<close> is the permutation of
  \<open>range(n)\<close> that the generator draws in state \<open>g\<close>, with its next state.
\<close>

definition choice :: "('g \<Rightarrow> nat \<Rightarrow> nat list \<times> 'g) \<Rightarrow> 'g \<Rightarrow> nat list \<Rightarrow> nat
    \<Rightarrow> error + (nat list \<times> 'g)" where
  "choice permutation g a sz =
     (if sz > length a then Inl ValueError
      else (let (idx, g') = permutation g (length a)
            in ebind (sequence (map (nth_e a) (take sz idx))) (\<lambda>drawn. Inr (drawn, g'))))"

subsection \<open>State\<close>

text \<open>
  What \<open>get_candidates\<close> reads of the bracket and its \<open>EvolutionES\<close> and never
  writes: the population size and pair count, the index of the fidelity dimension, the
  type tag of every dimension of the space, the indices of the other dimensions, and
  the two factors of \<open>mutate_attr\<close>.
\<close>

record bracket =
  nums_population :: nat
  nums_comp_pairs :: nat
  fidelity_index :: nat
  space_types :: "string list"
  search_space_remove_fidelity :: "nat list"
  multiply_factor :: real
  add_factor :: real

text \<open>
  The state it writes: the \<open>population\<close> dictionary (dimension index to array of
  slot values), the \<open>performance\<close> array, the \<open>hurdles\<close> history, and the state
  \<open>rng\<close> of the random generator. Parameter values are finite numbers held by value
  (Python compares an \<open>int\<close> and a \<open>float\<close> by value).
\<close>

record 'g eves =
  population :: "nat \<rightharpoonup> real list"
  performance :: "fl list"
  hurdles :: "fl list"
  rng :: 'g

text \<open>A rung's results, \<open>list(rung.values())\<close>: objective and parameter vector.\<close>

type_synonym rung = "(fl \<times> real list) list"

text \<open>
  The mutation function is resolved by name at construction and is not part of this
  module: it is a parameter, called with the bracket, the state, the winner and loser
  slots and the two factors.
\<close>

type_synonym 'g mutate_fn =
  "bracket \<Rightarrow> 'g eves \<Rightarrow> nat \<Rightarrow> nat \<Rightarrow> real \<Rightarrow> real \<Rightarrow> error + 'g eves"

definition BracketEVES_init :: "string list \<Rightarrow> nat \<Rightarrow> nat \<Rightarrow> real \<Rightarrow> real \<Rightarrow> bracket" where
  "BracketEVES_init space fid n mf af =
     \<lparr>nums_population = n,
      nums_comp_pairs = n div 2,
      fidelity_index = fid,
      space_types = space,
      search_space_remove_fidelity = filter (\<lambda>i. \<not> i = fid) [0 ..< length space],
      multiply_factor = mf,
      add_factor = af\<rparr>"

definition EvolutionES_init :: "string list \<Rightarrow> nat \<Rightarrow> nat \<Rightarrow> 'g \<Rightarrow> 'g eves" where
  "EvolutionES_init space fid n g =
     \<lparr>population = (\<lambda>key. if key < length space \<and> \<not> key = fid
                            then Some (replicate n (- 1)) else None),
      performance = replicate n PosInf,
      hurdles = [],
      rng = g\<rparr>"

definition mutate :: "'g mutate_fn \<Rightarrow> bracket \<Rightarrow> 'g eves \<Rightarrow> nat \<Rightarrow> nat \<Rightarrow> error + 'g eves" where
  "mutate mutate_func self st winner_id loser_id =
     mutate_func self st winner_id loser_id (multiply_factor self) (add_factor self)"

text \<open>\<open>copy_winner\<close>: the winner's value replaces the loser's in every array.\<close>

fun copy_winner_loop :: "nat list \<Rightarrow> 'g eves \<Rightarrow> nat \<Rightarrow> nat \<Rightarrow> error + 'g eves" where
  "copy_winner_loop [] st winner_id loser_id = Inr st"
| "copy_winner_loop (key # keys) st winner_id loser_id =
     (case population st key of
        None \<Rightarrow> Inl KeyError
      | Some arr \<Rightarrow>
          ebind (nth_e arr winner_id) (\<lambda>v.
            ebind (set_e arr loser_id v) (\<lambda>arr'.
              copy_winner_loop keys (st\<lparr>population := (population st)(key \<mapsto> arr')\<rparr>)
                winner_id loser_id)))"

definition copy_winner :: "bracket \<Rightarrow> 'g eves \<Rightarrow> nat \<Rightarrow> nat \<Rightarrow> error + 'g eves" where
  "copy_winner self st winner_id loser_id =
     copy_winner_loop (search_space_remove_fidelity self) st winner_id loser_id"

subsection \<open>\<open>get_candidates\<close>\<close>

text \<open>
  The first loop: the results of the rung overwrite the population slots and the
  performance array, positionally.
\<close>

fun copy_genes :: "nat list \<Rightarrow> real list \<Rightarrow> nat \<Rightarrow> 'g eves \<Rightarrow> error + 'g eves" where
  "copy_genes [] params i st = Inr st"
| "copy_genes (j # js) params i st =
     ebind (nth_e params j) (\<lambda>v.
       (case population st j of
          None \<Rightarrow> Inl KeyError
        | Some arr \<Rightarrow>
            ebind (set_e arr i v) (\<lambda>arr'.
              copy_genes js params i (st\<lparr>population := (population st)(j \<mapsto> arr')\<rparr>))))"

fun copy_results :: "bracket \<Rightarrow> rung \<Rightarrow> nat list \<Rightarrow> 'g eves \<Rightarrow> error + 'g eves" where
  "copy_results self rung [] st = Inr st"
| "copy_results self rung (i # rest) st =
     ebind (nth_e rung i) (\<lambda>entry.
       ebind (copy_genes (search_space_remove_fidelity self) (snd entry) i st) (\<lambda>st1.
         ebind (set_e (performance st1) i (fst entry)) (\<lambda>perf.
           copy_results self rung rest (st1\<lparr>performance := perf\<rparr>))))"

text \<open>
  The two teams: red is drawn from all the population indices, blue from the indices
  that are not red (the set difference, listed in ascending order).
\<close>

definition select_teams :: "('g \<Rightarrow> nat \<Rightarrow> nat list \<times> 'g) \<Rightarrow> bracket \<Rightarrow> 'g
    \<Rightarrow> error + (nat list \<times> nat list \<times> 'g)" where
  "select_teams permutation self g =
     (let population_index = [0 ..< nums_population self] in
      ebind (choice permutation g population_index (nums_comp_pairs self)) (\<lambda>(red_team, g1).
        let diff_list = filter (\<lambda>k. k \<notin> set red_team) population_index in
        ebind (choice permutation g1 diff_list (nums_comp_pairs self)) (\<lambda>(blue_team, g2).
          Inr (red_team, blue_team, g2))))"

text \<open>
  The body of the tournament loop for pair \<open>i\<close>: red wins on \<open><\<close>, red loses on
  \<open>>=\<close>, the winner's objective is added to the hurdle and the loser is mutated.
  The state of the loop is the winner list, the loser list, the hurdle sum and the
  population state.
\<close>

type_synonym 'g tournament = "nat list \<times> nat list \<times> fl \<times> 'g eves"

definition tournament_pair :: "'g mutate_fn \<Rightarrow> bracket \<Rightarrow> nat list \<Rightarrow> nat list \<Rightarrow> nat
    \<Rightarrow> 'g tournament \<Rightarrow> error + 'g tournament" where
  "tournament_pair mutate_func self red_team blue_team i acc =
     (let (winner_list, loser_list, hurdle, st) = acc in
      ebind (nth_e red_team i) (\<lambda>r.
        ebind (nth_e (performance st) r) (\<lambda>perf_red.
          ebind (nth_e blue_team i) (\<lambda>b.
            ebind (nth_e (performance st) b) (\<lambda>perf_blue.
              let winner = (if fl_lt perf_red perf_blue then r else b);
                  loser = (if fl_ge perf_red perf_blue then r else b)
              in ebind (nth_e (performance st) winner) (\<lambda>perf_winner.
                   ebind (mutate mutate_func self st winner loser) (\<lambda>st'.
                     Inr (winner_list @ [winner], loser_list @ [loser],
                          fl_add hurdle perf_winner, st'))))))))"

fun tournament_loop :: "'g mutate_fn \<Rightarrow> bracket \<Rightarrow> nat list \<Rightarrow> nat list \<Rightarrow> nat list
    \<Rightarrow> 'g tournament \<Rightarrow> error + 'g tournament" where
  "tournament_loop mutate_func self red_team blue_team [] acc = Inr acc"
| "tournament_loop mutate_func self red_team blue_team (i # rest) acc =
     ebind (tournament_pair mutate_func self red_team blue_team i acc)
       (tournament_loop mutate_func self red_team blue_team rest)"

text \<open>
  \<open>hurdles /= len(red_team)\<close>: with no pair the hurdle is still the integer 0 and
  the division raises.
\<close>

definition record_hurdle :: "nat list \<Rightarrow> fl \<Rightarrow> 'g eves \<Rightarrow> error + 'g eves" where
  "record_hurdle red_team hurdle st =
     (if length red_team = 0 then Inl ZeroDivisionError
      else Inr (st\<lparr>hurdles := hurdles st @ [fl_div hurdle (length red_team)]\<rparr>))"

text \<open>
  One pass of the body of \<open>while True\<close> up to the membership test: the fidelity
  slot is copied from the rung entry, every other slot is read from the population,
  cast to an integer for integer and categorical dimensions.
\<close>

fun fill_point :: "bracket \<Rightarrow> 'g eves \<Rightarrow> nat \<Rightarrow> nat list \<Rightarrow> real list \<Rightarrow> error + real list" where
  "fill_point self st i [] point = Inr point"
| "fill_point self st i (j # js) point =
     ebind (nth_e (space_types self) j) (\<lambda>type'.
       (case population st j of
          None \<Rightarrow> Inl KeyError
        | Some arr \<Rightarrow>
            ebind (nth_e arr i) (\<lambda>v.
              ebind (set_e point j
                       (if type' = ''integer'' \<or> type' = ''categorical''
                        then real_of_int (py_int v) else v)) (\<lambda>point'.
                fill_point self st i js point'))))"

definition build_point :: "bracket \<Rightarrow> 'g eves \<Rightarrow> real list \<Rightarrow> nat \<Rightarrow> real list
    \<Rightarrow> error + real list" where
  "build_point self st params i point =
     ebind (nth_e params (fidelity_index self)) (\<lambda>fidelity.
       ebind (set_e point (fidelity_index self) fidelity) (\<lambda>point'.
         fill_point self st i (search_space_remove_fidelity self) point'))"

text \<open>\<open>points.index(tuple(point))\<close>, called only when the point is in the list.\<close>

fun index_of :: "'a list \<Rightarrow> 'a \<Rightarrow> nat" where
  "index_of [] x = 0"
| "index_of (y # ys) x = (if y = x then 0 else Suc (index_of ys x))"

text \<open>
  The loop \<open>while True\<close> for rung entry \<open>i\<close>. It leaves only through \<open>break\<close>,
  when the point is not among the points built so far; a duplicate is mutated and
  built again, and from the eleventh duplicate on a warning is logged each time. The
  loop may run forever: \<open>None\<close> is the call that does not return.
  Its state is the point, \<open>nums_all_equal\<close>, the number of warnings logged and the
  population state.
\<close>

partial_function (option) dedup_loop :: "'g mutate_fn \<Rightarrow> bracket \<Rightarrow> real list \<Rightarrow> nat
    \<Rightarrow> real list list \<Rightarrow> real list \<times> nat \<times> nat \<times> 'g eves
    \<Rightarrow> (error + real list \<times> nat \<times> 'g eves) option" where
  "dedup_loop mutate_func self params i points state =
     (case state of (point, nums_all_equal, warnings, st) \<Rightarrow>
        (case build_point self st params i point of
           Inl e \<Rightarrow> Some (Inl e)
         | Inr point' \<Rightarrow>
             if point' \<in> set points then
               (case mutate mutate_func self st (index_of points point') i of
                  Inl e \<Rightarrow> Some (Inl e)
                | Inr st' \<Rightarrow>
                    dedup_loop mutate_func self params i points
                      (point', nums_all_equal + 1,
                       (if nums_all_equal + 1 > 10 then warnings + 1 else warnings), st'))
             else Some (Inr (point', warnings, st))))"

text \<open>The loop over the rung entries that builds \<open>points\<close>.\<close>

fun points_loop :: "'g mutate_fn \<Rightarrow> bracket \<Rightarrow> rung \<Rightarrow> nat list
    \<Rightarrow> real list list \<times> nat \<times> 'g eves
    \<Rightarrow> (error + real list list \<times> nat \<times> 'g eves) option" where
  "points_loop mutate_func self rung [] acc = Some (Inr acc)"
| "points_loop mutate_func self rung (i # rest) (points, warnings, st) =
     (case nth_e rung i of
        Inl e \<Rightarrow> Some (Inl e)
      | Inr entry \<Rightarrow>
          (case dedup_loop mutate_func self (snd entry) i points
                  (replicate (length (space_types self)) 0, 0, warnings, st) of
             None \<Rightarrow> None
           | Some (Inl e) \<Rightarrow> Some (Inl e)
           | Some (Inr (point, warnings', st')) \<Rightarrow>
               points_loop mutate_func self rung rest (points @ [point], warnings', st')))"

text \<open>
  \<open>get_candidates\<close>. \<open>has_rung_filled\<close> belongs to the rung bookkeeping of the
  base class and is a parameter; \<open>rungs\<close> holds the results of every rung. The call
  returns the points, the number of warnings it logged and the state it leaves.
\<close>

definition get_candidates :: "('g \<Rightarrow> nat \<Rightarrow> nat list \<times> 'g) \<Rightarrow> 'g mutate_fn \<Rightarrow> (nat \<Rightarrow> bool)
    \<Rightarrow> bracket \<Rightarrow> rung list \<Rightarrow> nat \<Rightarrow> 'g eves
    \<Rightarrow> (error + real list list \<times> nat \<times> 'g eves) option" where
  "get_candidates permutation mutate_func has_rung_filled self rungs rung_id st =
     (if has_rung_filled (rung_id + 1) then Some (Inr ([], 0, st))
      else
        (case nth_e rungs rung_id of
           Inl e \<Rightarrow> Some (Inl e)
         | Inr rung \<Rightarrow>
             (let population_range =
                    (if length rung > nums_population self then nums_population self
                     else length rung)
              in case
                   ebind (copy_results self rung [0 ..< population_range] st) (\<lambda>st1.
                     ebind (select_teams permutation self (rng st1)) (\<lambda>(red_team, blue_team, g).
                       ebind (tournament_loop mutate_func self red_team blue_team
                                [0 ..< length red_team] ([], [], Fin 0, st1\<lparr>rng := g\<rparr>))
                         (\<lambda>(winner_list, loser_list, hurdle, st2).
                            record_hurdle red_team hurdle st2)))
                 of
                   Inl e \<Rightarrow> Some (Inl e)
                 | Inr st3 \<Rightarrow>
                     points_loop mutate_func self rung [0 ..< population_range] ([], 0, st3))))"

text \<open>
  The contract of the random generator: what it draws for \<open>n\<close> is a permutation of
  \<open>range(n)\<close>.
\<close>

definition draws_permutations :: "('g \<Rightarrow> nat \<Rightarrow> nat list \<times> 'g) \<Rightarrow> bool" where
  "draws_permutations permutation =
     (\<forall>g n. distinct (fst (permutation g n)) \<and> set (fst (permutation g n)) = {0 ..< n})"

section \<open>Example inputs\<close>

text \<open>
  Two dimensions as a user declares them: a categorical one, whose \<open>interval\<close> raises
  the \<open>RuntimeError\<close> of categorical dimensions, and a real one on \<open>[0, 10]\<close>.
\<close>

definition example_categorical :: "string dimension" where
  "example_categorical =
     \<lparr>name = ''activation'', type = ''categorical'', categories = [''relu'', ''tanh'', ''elu''],
      interval = (\<lambda>alpha. Inl (RuntimeError ''Categories have no ordering.'')),
      contains = (\<lambda>p. Inr (p \<in> Cat ` set [''relu'', ''tanh'', ''elu'']))\<rparr>"

definition example_real :: "string dimension" where
  "example_real =
     \<lparr>name = ''lr'', type = ''real'', categories = [],
      interval = (\<lambda>alpha. Inr (FloatV 0, FloatV 10)),
      contains = (\<lambda>p. Inr (\<not> is_cat p \<and> \<not> is_arr p \<and> 0 \<le> num_of p \<and> num_of p \<le> 10))\<rparr>"

text \<open>
  A bracket over a space of one real dimension and the fidelity, with a population of
  two; the state as \<open>EvolutionES.__init__\<close> leaves it; a rung with two results; a
  generator that draws the identity permutation; and a mutation function that copies
  the winner's values to the loser and changes nothing else.
\<close>

definition first_permutation :: "unit \<Rightarrow> nat \<Rightarrow> nat list \<times> unit" where
  "first_permutation g n = ([0 ..< n], g)"

definition copy_mutate :: "unit mutate_fn" where
  "copy_mutate self st winner_id loser_id mf af = copy_winner self st winner_id loser_id"

definition example_bracket :: bracket where
  "example_bracket = BracketEVES_init [''real'', ''fidelity''] 1 2 3 1"

definition example_eves :: "unit eves" where
  "example_eves = EvolutionES_init [''real'', ''fidelity''] 1 2 ()"

definition example_rungs :: "rung list" where
  "example_rungs = [[(Fin 1, [5, 1]), (Fin 2, [7, 1])]]"

text \<open>A mutation function that leaves the population as it is.\<close>

definition keep_mutate :: "unit mutate_fn" where
  "keep_mutate self st winner_id loser_id mf af = Inr st"

section \<open>Verification: budget computation\<close>

lemma py_int_of_int [simp]: "py_int (real_of_int k) = k"
  by (simp add: py_int_def)

lemma py_int_one [simp]: "py_int 1 = 1"
  by (simp add: py_int_def)

text \<open>
  After its first iteration the \<open>reduction_factor == 1\<close> loop only appends to the
  line it opened.
\<close>

lemma rf1_loop_tail:
  "\<forall>i \<in> set xs. i \<noteq> lo \<Longrightarrow>
   rf1_loop lo pop pairs xs (line # others) =
     Inr ((line @ map (\<lambda>i. (pairs * 2, i)) xs) # others)"
  by (induction xs arbitrary: line) auto

lemma rf1_loop_range:
  assumes "lo \<le> hi"
  shows "rf1_loop lo pop pairs [lo .. hi] [] =
           Inr [(pop, lo) # map (\<lambda>i. (pairs * 2, i)) [lo + 1 .. hi]]"
proof -
  have "[lo .. hi] = lo # [lo + 1 .. hi]"
    using assms by (simp add: upto_rec1)
  moreover have "\<forall>i \<in> set [lo + 1 .. hi]. i \<noteq> lo" by auto
  ultimately show ?thesis
    by (simp add: rf1_loop_tail)
qed

text \<open>
  C4. With \<open>reduction_factor = 1\<close> and integer resources \<open>lo \<le> hi\<close>,
  \<open>compute_budgets\<close> returns one schedule line of \<open>hi - lo + 1\<close> rungs; the resource
  levels are the consecutive integers from \<open>lo\<close> to \<open>hi\<close>, the first count is the
  population size and every later count is twice the pair count.
\<close>

theorem compute_budgets_rf1:
  assumes "lo \<le> hi"
  shows "\<exists>line. compute_budgets (PyInt lo) (PyInt hi) 1 pop pairs = Inr [line]
           \<and> int (length line) = hi - lo + 1
           \<and> map snd line = [lo .. hi]
           \<and> fst (hd line) = pop
           \<and> (\<forall>r \<in> set (tl line). fst r = 2 * pairs)"
proof -
  let ?line = "(pop, lo) # map (\<lambda>i. (pairs * 2, i)) [lo + 1 .. hi]"
  have run: "compute_budgets (PyInt lo) (PyInt hi) 1 pop pairs = Inr [?line]"
    using assms by (simp add: compute_budgets_def rf1_loop_range)
  have up: "[lo .. hi] = lo # [lo + 1 .. hi]"
    using assms by (simp add: upto_rec1)
  have len: "int (length ?line) = hi - lo + 1"
    using assms by simp
  have lev: "map snd ?line = [lo .. hi]"
    by (simp add: up comp_def)
  have rest: "\<forall>r \<in> set (tl ?line). fst r = 2 * pairs"
    by auto
  show ?thesis
    using run len lev rest by (intro exI [of _ ?line]) simp
qed

theorem compute_budgets_rf1_witness:
  "compute_budgets (PyInt 1) (PyInt 3) 1 20 10 = Inr [[(20, 1), (20, 2), (20, 3)]]"
  using compute_budgets_rf1 [of 1 3 20 10]
  by (simp add: compute_budgets_def upto_rec1)

text \<open>The same for the final loop of the successive-halving branch.\<close>

lemma eves_loop_tail:
  "\<forall>i \<in> set xs. i \<noteq> 0 \<Longrightarrow>
   eves_loop pop pairs b0 xs (line # others) =
     Inr ((line @ map (\<lambda>i. (pairs * 2, snd (b0 ! i))) xs) # others)"
  by (induction xs arbitrary: line) auto

lemma eves_loop_range:
  assumes "b0 \<noteq> []"
  shows "eves_loop pop pairs b0 [0 ..< length b0] [] =
           Inr [(pop, snd (b0 ! 0)) # map (\<lambda>i. (pairs * 2, snd (b0 ! i))) [1 ..< length b0]]"
proof -
  have "[0 ..< length b0] = 0 # [1 ..< length b0]"
    using assms by (simp add: upt_rec)
  moreover have "\<forall>i \<in> set [1 ..< length b0]. i \<noteq> 0" by auto
  ultimately show ?thesis
    by (simp add: eves_loop_tail)
qed

lemma length_bracket_budgets:
  "0 \<le> nb \<Longrightarrow> length (bracket_budgets mx rf nb 0) = nat nb + 1"
  by (simp add: bracket_budgets_def Let_def)

lemma bracket_budgets_zero:
  "bracket_budgets mx rf 0 0 = [(1, py_int mx)]"
  by (simp add: bracket_budgets_def Let_def upto_rec1)

text \<open>
  The bracket count where the resources lie between two powers of the reduction
  factor, and the schedule of the example \<open>min_resources = 1\<close>, \<open>max_resources = 100\<close>,
  \<open>reduction_factor = 4\<close>: its last resource level is 100.
\<close>

lemma num_brackets_of_power:
  assumes "1 < rf" "rf ^ k \<le> mx" "mx < rf ^ Suc k"
  shows "num_brackets_of mx rf = Inr (int k)"
proof -
  have pos: "0 < mx"
    using assms by (smt (verit) zero_less_power)
  have lnrf: "0 < ln rf"
    using assms by simp
  have "ln (rf ^ k) \<le> ln mx"
    using assms pos by (simp add: ln_le_cancel_iff)
  then have lo: "real k \<le> ln mx / ln rf"
    using lnrf assms by (simp add: ln_realpow pos_le_divide_eq)
  have "ln mx < ln (rf ^ Suc k)"
    using assms pos by (simp del: power_Suc)
  also have "ln (rf ^ Suc k) = (real k + 1) * ln rf"
    using assms by (simp add: ln_realpow del: power_Suc)
  finally have hi: "ln mx / ln rf < real k + 1"
    using lnrf by (simp add: pos_divide_less_eq)
  have "\<lfloor>ln mx / ln rf\<rfloor> = int k"
    using lo hi by (simp add: floor_eq_iff)
  moreover have "\<not> ln mx / ln rf < 0"
    using lo by (smt (verit) of_nat_0_le_iff)
  ultimately show ?thesis
    using assms pos by (simp add: num_brackets_of_def py_int_def)
qed

lemma compute_budgets_example:
  "compute_budgets (PyInt 1) (PyInt 100) 4 20 10 =
     Inr [[(20, 1), (20, 6), (20, 25), (20, 100)]]"
proof -
  have nb: "num_brackets_of 100 4 = Inr 3"
    using num_brackets_of_power [of 4 3 100] by simp
  show ?thesis
    by (simp add: compute_budgets_def nb ebind_def bracket_budgets_def upto_rec1
        py_int_def upt_rec)
qed

lemma num_brackets_half: "num_brackets_of (1 / 2) 2 = Inr (- 1)"
proof -
  have "ln (1 / 2 :: real) / ln 2 = real_of_int (- 1)"
    by (simp add: ln_div)
  then show ?thesis
    unfolding num_brackets_of_def py_int_def by (simp del: of_int_minus)
qed

text \<open>
  C2, as stated, fails: with \<open>max_resources = min_resources = 1\<close> and
  \<open>reduction_factor = 2\<close> the bracket count \<open>num_brackets\<close> is zero, and
  \<open>compute_budgets\<close> returns a schedule of one rung.
\<close>

theorem compute_budgets_zero_brackets_counterexample:
  "compute_budgets (PyInt 1) (PyInt 1) 2 20 10 = Inr [[(20, 1)]]"
  by (simp add: compute_budgets_def num_brackets_of_def ebind_def bracket_budgets_def
      upto_rec1 py_int_def)

text \<open>
  C2, amended. \<open>compute_budgets\<close> has no check of the bracket count. With
  \<open>reduction_factor \<noteq> 1\<close> it fails, with the \<open>IndexError\<close> of \<open>budgets[0]\<close>, whenever
  \<open>num_brackets\<close> is negative, and then returns no schedule; when \<open>num_brackets\<close> is zero
  it returns the single rung \<open>(population size, int(max_resources))\<close>, and for every
  \<open>num_brackets \<ge> 0\<close> it returns one line of \<open>num_brackets + 1\<close> rungs. \<open>min_resources\<close>
  plays no part.
\<close>

theorem compute_budgets_bracket_count:
  assumes "rf \<noteq> 1" and "num_brackets_of (to_real mx) rf = Inr nb"
  shows "(nb < 0 \<longrightarrow> compute_budgets mn mx rf pop pairs = Inl IndexError)
       \<and> (nb = 0 \<longrightarrow> compute_budgets mn mx rf pop pairs = Inr [[(pop, py_int (to_real mx))]])
       \<and> (0 \<le> nb \<longrightarrow> (\<exists>line. compute_budgets mn mx rf pop pairs = Inr [line]
                         \<and> length line = nat nb + 1 \<and> fst (hd line) = pop))"
proof (intro conjI impI)
  assume "nb < 0"
  then have "[0 .. nb] = []" by simp
  then show "compute_budgets mn mx rf pop pairs = Inl IndexError"
    using assms by (simp add: compute_budgets_def ebind_def)
next
  assume z: "nb = 0"
  show "compute_budgets mn mx rf pop pairs = Inr [[(pop, py_int (to_real mx))]]"
    using assms z by (simp add: compute_budgets_def ebind_def upto_rec1 bracket_budgets_zero)
next
  assume nn: "0 \<le> nb"
  let ?b0 = "bracket_budgets (to_real mx) rf nb 0"
  let ?line = "(pop, snd (?b0 ! 0)) # map (\<lambda>i. (pairs * 2, snd (?b0 ! i))) [1 ..< length ?b0]"
  have up: "[0 .. nb] = 0 # [1 .. nb]"
    using nn by (simp add: upto_rec1)
  have len: "length ?b0 = nat nb + 1"
    using nn by (rule length_bracket_budgets)
  then have ne: "?b0 \<noteq> []" by auto
  have run: "compute_budgets mn mx rf pop pairs = Inr [?line]"
    using assms ne by (simp add: compute_budgets_def ebind_def up eves_loop_range)
  have "length ?line = nat nb + 1"
    using len by simp
  then show "\<exists>line. compute_budgets mn mx rf pop pairs = Inr [line]
                \<and> length line = nat nb + 1 \<and> fst (hd line) = pop"
    using run by (intro exI [of _ ?line]) simp
qed

theorem compute_budgets_bracket_count_witness:
  "compute_budgets (PyFloat (1 / 4)) (PyFloat (1 / 2)) 2 20 10 = Inl IndexError"
  using compute_budgets_bracket_count [of 2 "PyFloat (1 / 2)" "- 1" "PyFloat (1 / 4)" 20 10]
    num_brackets_half
  by simp

section \<open>Verification: Enumerate and OneHotEncode\<close>

lemma map_dict_notin: "c \<notin> set cats \<Longrightarrow> map_dict cats k m c = m c"
  by (induction cats arbitrary: k m) auto

lemma map_dict_in:
  "c \<in> set cats \<Longrightarrow>
   \<exists>i < length cats. map_dict cats k m c = Some (int (k + i)) \<and> cats ! i = c"
proof (induction cats arbitrary: k m)
  case Nil
  then show ?case by simp
next
  case (Cons x xs)
  show ?case
  proof (cases "c \<in> set xs")
    case True
    from Cons.IH [OF True, of "Suc k" "m(x \<mapsto> int k)"]
    obtain i where "i < length xs"
      "map_dict xs (Suc k) (m(x \<mapsto> int k)) c = Some (int (Suc k + i))" "xs ! i = c"
      by blast
    then show ?thesis
      by (intro exI [of _ "Suc i"]) simp
  next
    case False
    with Cons.prems have "c = x" by simp
    with False show ?thesis
      by (intro exI [of _ 0]) (simp add: map_dict_notin)
  qed
qed

lemma Enumerate_transform_in:
  assumes "c \<in> set cats"
  shows "\<exists>i < length cats. transform (Enumerate cats) (Cat c) = Inr (IntV (int i)) \<and> cats ! i = c"
proof -
  from map_dict_in [OF assms, of 0 Map.empty]
  obtain i where "i < length cats" "map_dict cats 0 Map.empty c = Some (int i)" "cats ! i = c"
    by auto
  then show ?thesis
    by (intro exI [of _ i]) (simp add: Enumerate_transform_def)
qed

lemma Enumerate_reverse_index:
  "i < length cats \<Longrightarrow> reverse (Enumerate cats) (IntV (int i)) = Inr (Cat (cats ! i))"
  by (simp add: Enumerate_reverse_def Let_def)

lemma hot_list:
  "i < m \<Longrightarrow>
   map (\<lambda>k. if k = i then 1 else 0) [0 ..< m] = replicate i (0::real) @ 1 # replicate (m - Suc i) 0"
  by (rule nth_equalityI) (auto simp: nth_append nth_Cons split: nat.splits)

lemma takeWhile_zeros:
  "takeWhile (\<lambda>x. x \<noteq> 1) (replicate i (0::real) @ 1 # ys) = replicate i 0"
  by (induction i) auto

lemma argmax_hot:
  assumes "i < m"
  shows "argmax (map (\<lambda>k. if k = i then 1 else 0) [0 ..< m]) = i"
proof -
  let ?xs = "replicate i (0::real) @ 1 # replicate (m - Suc i) 0"
  have "set ?xs \<subseteq> {0, 1}" "1 \<in> set ?xs" by auto
  then have mx: "Max (set ?xs) = 1"
    by (intro Max_eqI) auto
  have "takeWhile (\<lambda>x. x \<noteq> 1) ?xs = replicate i 0"
    by (rule takeWhile_zeros)
  then show ?thesis
    using assms mx by (simp add: argmax_def hot_list)
qed

lemma OneHotEncode_roundtrip:
  assumes "i < n"
  shows "\<exists>h. transform (OneHotEncode (int n)) (IntV (int i)) = Inr h
           \<and> reverse (OneHotEncode (int n)) h = Inr (IntV (int i))"
proof -
  have inc: "in_cats (int n) (IntV (int i))"
    using assms by (simp add: in_cats_def)
  consider "n = 1" | "n = 2" | "2 < n"
    using assms by linarith
  then show ?thesis
  proof cases
    case 1
    then have "i = 0" using assms by simp
    with 1 inc show ?thesis
      by (simp add: OneHotEncode_transform_def OneHotEncode_reverse_def)
  next
    case 2
    then have "i = 0 \<or> i = 1" using assms by auto
    with 2 inc show ?thesis
      by (auto simp: OneHotEncode_transform_def OneHotEncode_reverse_def)
  next
    case 3
    let ?v = "map (\<lambda>k. FloatV (if int k = int i then 1 else 0) :: 'a pyval) [0 ..< n]"
    have tr: "transform (OneHotEncode (int n)) (IntV (int i)) = Inr (Arr ?v)"
      using 3 inc by (simp add: OneHotEncode_transform_def float_dtype_def one_hot_def)
    have hd: "?v = FloatV (if 0 = i then 1 else 0) # map (\<lambda>k. FloatV (if int k = int i then 1 else 0)) [1 ..< n]"
      using 3 by (simp add: upt_rec [of 0])
    have sh: "shape_last (Arr ?v) = Inr n"
      using 3 by (subst hd) simp
    have noarr: "\<not> (\<exists>p \<in> set ?v. is_arr p)" "\<not> (\<exists>p \<in> set ?v. is_cat p)"
      by auto
    have nums: "map num_of ?v = map (\<lambda>k. if k = i then 1 else 0) [0 ..< n]"
      by simp
    have ne: "?v \<noteq> []" using 3 by simp
    have "argmax_last (Arr ?v) = Inr (IntV (int i))"
      using noarr ne assms by (simp only: argmax_last.simps nums argmax_hot if_False)
    then have "reverse (OneHotEncode (int n)) (Arr ?v) = Inr (IntV (int i))"
      using 3 sh by (simp add: OneHotEncode_reverse_def)
    with tr show ?thesis by blast
  qed
qed

text \<open>
  C6. For every category list and every category \<open>c\<close> in it (so for one, two and
  more than two categories), \<open>Enumerate.transform\<close>, then \<open>OneHotEncode.transform\<close>,
  then \<open>OneHotEncode.reverse\<close>, then \<open>Enumerate.reverse\<close> gives back \<open>c\<close>.
\<close>

theorem enumerate_onehot_roundtrip:
  fixes cats :: "'c list"
  assumes "c \<in> set cats"
  shows "ebind (ebind (ebind (transform (Enumerate cats) (Cat c))
                         (transform (OneHotEncode (int (length cats)))))
                  (reverse (OneHotEncode (int (length cats)))))
           (reverse (Enumerate cats)) = Inr (Cat c)"
proof -
  obtain i where i: "i < length cats"
      "transform (Enumerate cats) (Cat c) = Inr (IntV (int i))" "cats ! i = c"
    using Enumerate_transform_in [OF assms] by blast
  obtain h :: "'c pyval"
    where h: "transform (OneHotEncode (int (length cats))) (IntV (int i)) = Inr h"
      "reverse (OneHotEncode (int (length cats))) h = Inr (IntV (int i))"
    using OneHotEncode_roundtrip [OF i(1)] by blast
  show ?thesis
    using i h by (simp add: ebind_def Enumerate_reverse_index del: transform.simps reverse.simps)
qed

theorem enumerate_onehot_roundtrip_witness:
  "ebind (ebind (ebind (transform (Enumerate [''a'', ''b'', ''c'']) (Cat ''b''))
                         (transform (OneHotEncode 3)))
                  (reverse (OneHotEncode 3)))
           (reverse (Enumerate [''a'', ''b'', ''c''])) = Inr (Cat ''b'')"
  using enumerate_onehot_roundtrip [of "''b''" "[''a'', ''b'', ''c'']"]
  by simp

lemma onehot_value: "transform (OneHotEncode 3) (IntV 1 :: string pyval) = Inr (Arr [FloatV 0, FloatV 1, FloatV 0])"
  by (simp add: OneHotEncode_transform_def in_cats_def float_dtype_def one_hot_def upt_rec)

section \<open>Verification: Quantize\<close>





lemma round_float64_example: "round_float64 9007199254740993 = 9007199254740992"
  unfolding round_float64_def Let_def by (simp add: excess_bits.simps)







section \<open>Verification: transformed dimensions\<close>

text \<open>
  C8, as stated, fails: an index outside the category list violates the contract of
  \<open>Enumerate.reverse\<close>, which raises \<open>IndexError\<close>, and \<open>__contains__\<close> lets that
  error through instead of answering false.
\<close>

theorem td_contains_index_error_counterexample:
  "td_contains \<lparr>original_dimension = example_categorical,
                transformer = Compose (Identity (Some ''categorical''))
                                (Enumerate [''relu'', ''tanh'', ''elu''])\<rparr> (IntV 5)
     = Inl IndexError"
  by (simp add: td_contains_def td_reverse_def Enumerate_reverse_def Let_def)

text \<open>
  C8, amended. When the reverse transformation raises \<open>AssertionError\<close>,
  \<open>__contains__\<close> returns false; any other exception of the reverse transformation
  propagates; when the reverse transformation succeeds, the answer is the original
  dimension's containment of the reverse-transformed point.
\<close>

theorem td_contains_cases:
  "(td_reverse td p = Inl AssertionError \<longrightarrow> td_contains td p = Inr False)
   \<and> (td_reverse td p = Inl e \<and> e \<noteq> AssertionError \<longrightarrow> td_contains td p = Inl e)
   \<and> (td_reverse td p = Inr q \<longrightarrow> td_contains td p = contains (original_dimension td) q)"
  by (cases e) (simp_all add: td_contains_def)

lemma OneHotEncode_reverse_width:
  "2 < n \<Longrightarrow> shape_last p = Inr w \<Longrightarrow> int w \<noteq> n \<Longrightarrow>
   reverse (OneHotEncode n) p = Inl AssertionError"
  by (simp add: OneHotEncode_reverse_def)

theorem td_contains_cases_witness:
  "td_contains \<lparr>original_dimension = example_categorical,
                transformer = Compose (Compose (Identity (Some ''categorical''))
                                         (Enumerate [''relu'', ''tanh'', ''elu'']))
                                (OneHotEncode 3)\<rparr> (Arr [FloatV 1, FloatV 0])
     = Inr False"
  using td_contains_cases [of "\<lparr>original_dimension = example_categorical,
                transformer = Compose (Compose (Identity (Some ''categorical''))
                                         (Enumerate [''relu'', ''tanh'', ''elu'']))
                                (OneHotEncode 3)\<rparr>" "Arr [FloatV 1, FloatV 0]" AssertionError]
  by (simp add: td_reverse_def OneHotEncode_reverse_def)

text \<open>
  C9. When the original dimension's \<open>interval\<close> raises the \<open>RuntimeError\<close> that names
  \<open>Categories\<close> (how the code recognises a categorical dimension, whose interval is
  undefined), \<open>TransformedDimension.interval\<close> returns exactly \<open>(-0.1, 1.1)\<close>; when
  the original dimension has an interval, it returns its two endpoints transformed
  forward.
\<close>

theorem td_interval_cases:
  "(interval (original_dimension td) alpha = Inl (RuntimeError msg) \<and> sublist ''Categories'' msg
      \<longrightarrow> td_interval td alpha = Inr (FloatV (- 0.1), FloatV 1.1))
   \<and> (interval (original_dimension td) alpha = Inr (low, high)
        \<and> td_transform td low = Inr tlow \<and> td_transform td high = Inr thigh
      \<longrightarrow> td_interval td alpha = Inr (tlow, thigh))"
  by (simp add: td_interval_def)

theorem td_interval_cases_witness:
  "td_interval \<lparr>original_dimension = example_categorical,
                transformer = Compose (Compose (Identity (Some ''categorical''))
                                         (Enumerate [''relu'', ''tanh'', ''elu'']))
                                (OneHotEncode 3)\<rparr> 1
     = Inr (FloatV (- 0.1), FloatV 1.1)"
  using td_interval_cases [of "\<lparr>original_dimension = example_categorical,
                transformer = Compose (Compose (Identity (Some ''categorical''))
                                         (Enumerate [''relu'', ''tanh'', ''elu'']))
                                (OneHotEncode 3)\<rparr>" 1 "''Categories have no ordering.''"]
  by (simp add: example_categorical_def)

lemma wrap_dimension_original:
  "wrap_dimension reqs d = Inr td \<Longrightarrow> original_dimension td = d"
  by (auto simp: wrap_dimension_def ebind_def split: sum.splits prod.splits)

lemma register_append:
  "register space td = Inr space' \<Longrightarrow> space' = space @ [td]"
  by (auto simp: register_def split: if_splits)

lemma dimension_loop_originals:
  "dimension_loop reqs dims acc = Inr res \<Longrightarrow>
   map original_dimension res = map original_dimension acc @ dims"
proof (induction dims arbitrary: acc)
  case Nil
  then show ?case by simp
next
  case (Cons d dims)
  from Cons.prems obtain td acc' where
    w: "wrap_dimension reqs d = Inr td" and r: "register acc td = Inr acc'"
    and l: "dimension_loop reqs dims acc' = Inr res"
    by (auto simp: ebind_def split: sum.splits)
  from Cons.IH [OF l] register_append [OF r] wrap_dimension_original [OF w]
  show ?case by simp
qed

text \<open>
  C10. The name of a transformed dimension is the name of the dimension it wraps,
  whatever its transformer; the space that \<open>build_required_space\<close> returns wraps the
  dimensions of the original space one by one, in order, so it has the same names.
\<close>

theorem build_required_space_names:
  assumes "build_required_space reqs original_space = Inr tspace"
  shows "map td_name tspace = map name original_space
       \<and> (\<forall>td \<in> set tspace. td_name td = name (original_dimension td))
       \<and> map original_dimension tspace = original_space"
proof -
  have o: "map original_dimension tspace = original_space"
    using assms dimension_loop_originals [of "as_list reqs" original_space "[]" tspace]
    by (simp add: build_required_space_def)
  have "map td_name tspace = map name (map original_dimension tspace)"
    by (simp add: td_name_def comp_def)
  with o show ?thesis
    by (simp add: td_name_def)
qed

lemma build_example:
  "build_required_space (Single (Some ''real'')) [example_categorical, example_real]
     = Inr [\<lparr>original_dimension = example_categorical,
              transformer = Compose (Compose (Identity (Some ''categorical''))
                                       (Enumerate [''relu'', ''tanh'', ''elu'']))
                              (OneHotEncode 3)\<rparr>,
            \<lparr>original_dimension = example_real,
              transformer = Compose (Identity (Some ''real'')) (Identity None)\<rparr>]"
  by (simp add: build_required_space_def wrap_dimension_def requirement_step_def ebind_def
      Compose_init_def Compose_check_def register_def td_name_def
      example_categorical_def example_real_def)

theorem build_required_space_names_witness:
  "map td_name
     [\<lparr>original_dimension = example_categorical,
              transformer = Compose (Compose (Identity (Some ''categorical''))
                                       (Enumerate [''relu'', ''tanh'', ''elu'']))
                              (OneHotEncode 3)\<rparr>,
            \<lparr>original_dimension = example_real,
              transformer = Compose (Identity (Some ''real'')) (Identity None)\<rparr>]
    = [''activation'', ''lr'']"
  using build_required_space_names [OF build_example]
  by (simp add: example_categorical_def example_real_def)

section \<open>Verification: tournament selection\<close>

lemma sequence_nth_e:
  "\<forall>k \<in> set ks. k < length a \<Longrightarrow> sequence (map (nth_e a) ks) = Inr (map ((!) a) ks)"
  by (induction ks) (auto simp: nth_e_def)

lemma choice_draws:
  assumes perm: "draws_permutations permutation" and sz: "sz \<le> length a" and d: "distinct a"
  shows "\<exists>drawn g'. choice permutation g a sz = Inr (drawn, g')
           \<and> length drawn = sz \<and> distinct drawn \<and> set drawn \<subseteq> set a"
proof -
  obtain idx g' where p: "permutation g (length a) = (idx, g')"
    by (cases "permutation g (length a)")
  have di: "distinct idx" and si: "set idx = {0 ..< length a}"
    using perm p unfolding draws_permutations_def by (metis fst_conv)+
  have "length idx = length a"
    using di si by (metis card_atLeastLessThan diff_zero distinct_card)
  then have lt: "length (take sz idx) = sz"
    using sz by simp
  have inr: "\<forall>k \<in> set (take sz idx). k < length a"
    using si by (auto dest: in_set_takeD)
  let ?drawn = "map ((!) a) (take sz idx)"
  have run: "choice permutation g a sz = Inr (?drawn, g')"
    using sz p by (simp add: choice_def ebind_def sequence_nth_e [OF inr])
  have "inj_on ((!) a) (set (take sz idx))"
    using d inr by (auto simp: inj_on_def nth_eq_iff_index_eq)
  then have "distinct ?drawn"
    using di by (simp add: distinct_map)
  moreover have "set ?drawn \<subseteq> set a"
    using inr by auto
  ultimately show ?thesis
    using run lt by simp
qed

lemma select_teams_disjoint:
  assumes perm: "draws_permutations permutation"
    and half: "2 * nums_comp_pairs self \<le> nums_population self"
  shows "\<exists>red blue g'. select_teams permutation self g = Inr (red, blue, g')
           \<and> length red = nums_comp_pairs self \<and> length blue = nums_comp_pairs self
           \<and> distinct red \<and> distinct blue
           \<and> set red \<subseteq> {..< nums_population self} \<and> set blue \<subseteq> {..< nums_population self}
           \<and> set red \<inter> set blue = {}"
proof -
  let ?n = "nums_population self" and ?k = "nums_comp_pairs self"
  have "?k \<le> length [0 ..< ?n]" using half by simp
  from choice_draws [OF perm this, of g]
  obtain red g1 where r: "choice permutation g [0 ..< ?n] ?k = Inr (red, g1)"
    "length red = ?k" "distinct red" "set red \<subseteq> set [0 ..< ?n]"
    by auto
  let ?diff = "filter (\<lambda>k. k \<notin> set red) [0 ..< ?n]"
  have "set ?diff = {0 ..< ?n} - set red" by auto
  then have "card (set ?diff) = ?n - ?k"
    using r by (simp add: card_Diff_subset distinct_card)
  then have "length ?diff = ?n - ?k"
    by (metis distinct_card distinct_filter distinct_upt)
  then have "?k \<le> length ?diff" using half by simp
  from choice_draws [OF perm this, of g1]
  obtain blue g2 where b: "choice permutation g1 ?diff ?k = Inr (blue, g2)"
    "length blue = ?k" "distinct blue" "set blue \<subseteq> set ?diff"
    by auto
  have run: "select_teams permutation self g = Inr (red, blue, g2)"
    using r(1) b(1) by (simp add: select_teams_def ebind_def Let_def)
  have "set red \<inter> set blue = {}" "set blue \<subseteq> {..< ?n}" "set red \<subseteq> {..< ?n}"
    using b(4) r(4) by auto
  then show ?thesis
    using run r b by simp
qed

lemma fl_lt_irrefl [simp]: "\<not> fl_lt x x"
  by (cases x) auto

lemma tournament_loop_append:
  "tournament_loop mf self red blue (xs @ ys) acc =
     ebind (tournament_loop mf self red blue xs acc) (tournament_loop mf self red blue ys)"
  by (induction xs arbitrary: acc) (auto simp: ebind_def split: sum.splits)

lemma tournament_pair_result:
  assumes "tournament_pair mf self red blue i (wl, ll, h, st) = Inr (wl', ll', h', st')"
  shows "wl' = wl @ [if fl_lt (performance st ! (red ! i)) (performance st ! (blue ! i))
                     then red ! i else blue ! i]
       \<and> ll' = ll @ [if fl_ge (performance st ! (red ! i)) (performance st ! (blue ! i))
                     then red ! i else blue ! i]"
  using assms
  by (auto simp: tournament_pair_def ebind_def nth_e_def Let_def split: sum.splits if_splits)

lemma tournament_loop_pairs:
  "tournament_loop mf self red blue [0 ..< k] ([], [], Fin 0, st) = Inr (wl, ll, h, st') \<Longrightarrow>
   length wl = k \<and> length ll = k \<and>
   (\<forall>i < k. \<exists>wl0 ll0 h0 st0.
      tournament_loop mf self red blue [0 ..< i] ([], [], Fin 0, st) = Inr (wl0, ll0, h0, st0)
      \<and> wl ! i = (if fl_lt (performance st0 ! (red ! i)) (performance st0 ! (blue ! i))
                  then red ! i else blue ! i)
      \<and> ll ! i = (if fl_ge (performance st0 ! (red ! i)) (performance st0 ! (blue ! i))
                  then red ! i else blue ! i))"
proof (induction k arbitrary: wl ll h st')
  case 0
  then show ?case by simp
next
  case (Suc k)
  let ?L = "tournament_loop mf self red blue"
  from Suc.prems have "ebind (?L [0 ..< k] ([], [], Fin 0, st)) (?L [k]) = Inr (wl, ll, h, st')"
    by (simp add: tournament_loop_append)
  then obtain wlk llk hk stk where
    pre: "?L [0 ..< k] ([], [], Fin 0, st) = Inr (wlk, llk, hk, stk)"
    and step: "tournament_pair mf self red blue k (wlk, llk, hk, stk) = Inr (wl, ll, h, st')"
    by (auto simp: ebind_def split: sum.splits)
  note ih = Suc.IH [OF pre]
  note res = tournament_pair_result [OF step]
  have len: "length wl = Suc k" "length ll = Suc k"
    using ih res by simp_all
  have "\<exists>wl0 ll0 h0 st0.
      ?L [0 ..< i] ([], [], Fin 0, st) = Inr (wl0, ll0, h0, st0)
      \<and> wl ! i = (if fl_lt (performance st0 ! (red ! i)) (performance st0 ! (blue ! i))
                  then red ! i else blue ! i)
      \<and> ll ! i = (if fl_ge (performance st0 ! (red ! i)) (performance st0 ! (blue ! i))
                  then red ! i else blue ! i)" if "i < Suc k" for i
  proof (cases "i < k")
    case True
    with ih obtain wl0 ll0 h0 st0 where
      "?L [0 ..< i] ([], [], Fin 0, st) = Inr (wl0, ll0, h0, st0)"
      "wlk ! i = (if fl_lt (performance st0 ! (red ! i)) (performance st0 ! (blue ! i))
                  then red ! i else blue ! i)"
      "llk ! i = (if fl_ge (performance st0 ! (red ! i)) (performance st0 ! (blue ! i))
                  then red ! i else blue ! i)"
      by blast
    moreover have "wl ! i = wlk ! i" "ll ! i = llk ! i"
      using True ih res by (simp_all add: nth_append)
    ultimately show ?thesis by metis
  next
    case False
    with that have "i = k" by simp
    moreover have "wl ! k = (if fl_lt (performance stk ! (red ! k)) (performance stk ! (blue ! k))
                  then red ! k else blue ! k)"
      "ll ! k = (if fl_ge (performance stk ! (red ! k)) (performance stk ! (blue ! k))
                  then red ! k else blue ! k)"
      using ih res by (simp_all add: nth_append)
    ultimately show ?thesis using pre by blast
  qed
  with len show ?case by blast
qed

text \<open>
  C3. When twice the pair count is at most the population size (and the generator
  draws permutations), the red and blue teams are drawn without error, each has
  \<open>pair_count\<close> distinct members below the population size, and no index is in both.
  Whenever the tournament loop returns, it has produced \<open>pair_count\<close> winners and
  losers; in pair \<open>i\<close>, with the performance array as it is when the pair is compared,
  the winner is the red member if its objective is strictly lower and the blue member
  otherwise (so blue wins a tie), and the loser is the red member on \<open>>=\<close>.
\<close>

theorem tournament_selection:
  fixes permutation :: "'g \<Rightarrow> nat \<Rightarrow> nat list \<times> 'g"
  assumes "draws_permutations permutation"
    and "2 * nums_comp_pairs self \<le> nums_population self"
  shows "\<exists>red blue g'. select_teams permutation self g = Inr (red, blue, g')
           \<and> length red = nums_comp_pairs self \<and> length blue = nums_comp_pairs self
           \<and> distinct red \<and> distinct blue
           \<and> set red \<subseteq> {..< nums_population self} \<and> set blue \<subseteq> {..< nums_population self}
           \<and> set red \<inter> set blue = {}
           \<and> (\<forall>(mutate_func :: 'g mutate_fn) st wl ll h st'.
                 tournament_loop mutate_func self red blue [0 ..< length red] ([], [], Fin 0, st)
                   = Inr (wl, ll, h, st') \<longrightarrow>
                 length wl = nums_comp_pairs self \<and> length ll = nums_comp_pairs self \<and>
                 (\<forall>i < nums_comp_pairs self. \<exists>wl0 ll0 h0 st0.
                    tournament_loop mutate_func self red blue [0 ..< i] ([], [], Fin 0, st)
                      = Inr (wl0, ll0, h0, st0)
                    \<and> wl ! i = (if fl_lt (performance st0 ! (red ! i)) (performance st0 ! (blue ! i))
                                then red ! i else blue ! i)
                    \<and> ll ! i = (if fl_ge (performance st0 ! (red ! i)) (performance st0 ! (blue ! i))
                                then red ! i else blue ! i)
                    \<and> (performance st0 ! (red ! i) = performance st0 ! (blue ! i)
                          \<longrightarrow> wl ! i = blue ! i)))"
proof -
  from select_teams_disjoint [OF assms, of g]
  obtain red blue g' where t: "select_teams permutation self g = Inr (red, blue, g')"
    "length red = nums_comp_pairs self" "length blue = nums_comp_pairs self"
    "distinct red" "distinct blue"
    "set red \<subseteq> {..< nums_population self}" "set blue \<subseteq> {..< nums_population self}"
    "set red \<inter> set blue = {}"
    by blast
  have loop: "length wl = nums_comp_pairs self \<and> length ll = nums_comp_pairs self \<and>
      (\<forall>i < nums_comp_pairs self. \<exists>wl0 ll0 h0 st0.
         tournament_loop mutate_func self red blue [0 ..< i] ([], [], Fin 0, st)
           = Inr (wl0, ll0, h0, st0)
         \<and> wl ! i = (if fl_lt (performance st0 ! (red ! i)) (performance st0 ! (blue ! i))
                     then red ! i else blue ! i)
         \<and> ll ! i = (if fl_ge (performance st0 ! (red ! i)) (performance st0 ! (blue ! i))
                     then red ! i else blue ! i)
         \<and> (performance st0 ! (red ! i) = performance st0 ! (blue ! i)
               \<longrightarrow> wl ! i = blue ! i))"
    if run: "tournament_loop mutate_func self red blue [0 ..< length red] ([], [], Fin 0, st)
           = Inr (wl, ll, h, st')"
    for mutate_func :: "'g mutate_fn" and st wl ll h st'
  proof -
    note p = tournament_loop_pairs [OF run]
    have "\<exists>wl0 ll0 h0 st0.
         tournament_loop mutate_func self red blue [0 ..< i] ([], [], Fin 0, st)
           = Inr (wl0, ll0, h0, st0)
         \<and> wl ! i = (if fl_lt (performance st0 ! (red ! i)) (performance st0 ! (blue ! i))
                     then red ! i else blue ! i)
         \<and> ll ! i = (if fl_ge (performance st0 ! (red ! i)) (performance st0 ! (blue ! i))
                     then red ! i else blue ! i)
         \<and> (performance st0 ! (red ! i) = performance st0 ! (blue ! i)
               \<longrightarrow> wl ! i = blue ! i)" if "i < nums_comp_pairs self" for i
    proof -
      from p that t(2) obtain wl0 ll0 h0 st0 where q:
        "tournament_loop mutate_func self red blue [0 ..< i] ([], [], Fin 0, st)
           = Inr (wl0, ll0, h0, st0)"
        "wl ! i = (if fl_lt (performance st0 ! (red ! i)) (performance st0 ! (blue ! i))
                     then red ! i else blue ! i)"
        "ll ! i = (if fl_ge (performance st0 ! (red ! i)) (performance st0 ! (blue ! i))
                     then red ! i else blue ! i)"
        by (metis (no_types, lifting))
      have "performance st0 ! (red ! i) = performance st0 ! (blue ! i) \<longrightarrow> wl ! i = blue ! i"
        using q(2) by simp
      with q show ?thesis by blast
    qed
    with p t(2) show ?thesis by simp
  qed
  have every: "\<forall>(mutate_func :: 'g mutate_fn) st wl ll h st'.
      tournament_loop mutate_func self red blue [0 ..< length red] ([], [], Fin 0, st)
        = Inr (wl, ll, h, st') \<longrightarrow>
      length wl = nums_comp_pairs self \<and> length ll = nums_comp_pairs self \<and>
      (\<forall>i < nums_comp_pairs self. \<exists>wl0 ll0 h0 st0.
         tournament_loop mutate_func self red blue [0 ..< i] ([], [], Fin 0, st)
           = Inr (wl0, ll0, h0, st0)
         \<and> wl ! i = (if fl_lt (performance st0 ! (red ! i)) (performance st0 ! (blue ! i))
                     then red ! i else blue ! i)
         \<and> ll ! i = (if fl_ge (performance st0 ! (red ! i)) (performance st0 ! (blue ! i))
                     then red ! i else blue ! i)
         \<and> (performance st0 ! (red ! i) = performance st0 ! (blue ! i)
               \<longrightarrow> wl ! i = blue ! i))"
  proof (intro allI impI)
    fix mutate_func :: "'g mutate_fn" and st wl ll h st'
    assume "tournament_loop mutate_func self red blue [0 ..< length red] ([], [], Fin 0, st)
        = Inr (wl, ll, h, st')"
    then show "length wl = nums_comp_pairs self \<and> length ll = nums_comp_pairs self \<and>
      (\<forall>i < nums_comp_pairs self. \<exists>wl0 ll0 h0 st0.
         tournament_loop mutate_func self red blue [0 ..< i] ([], [], Fin 0, st)
           = Inr (wl0, ll0, h0, st0)
         \<and> wl ! i = (if fl_lt (performance st0 ! (red ! i)) (performance st0 ! (blue ! i))
                     then red ! i else blue ! i)
         \<and> ll ! i = (if fl_ge (performance st0 ! (red ! i)) (performance st0 ! (blue ! i))
                     then red ! i else blue ! i)
         \<and> (performance st0 ! (red ! i) = performance st0 ! (blue ! i)
               \<longrightarrow> wl ! i = blue ! i))"
      by (rule loop)
  qed
  show ?thesis
    by (intro exI conjI) (rule t every)+
qed

lemma draws_first_permutation: "draws_permutations first_permutation"
  by (simp add: draws_permutations_def first_permutation_def)

lemma example_teams:
  "select_teams first_permutation example_bracket () = Inr ([0], [1], ())"
  by (simp add: select_teams_def choice_def first_permutation_def example_bracket_def
      BracketEVES_init_def ebind_def nth_e_def upt_rec)

lemma example_tournament:
  "map_sum id (\<lambda>(wl, ll, h, st). (wl, ll, h))
     (tournament_loop copy_mutate example_bracket [0] [1] [0 ..< 1] ([], [], Fin 0, example_eves))
   = Inr ([1], [0], PosInf)"
  by (simp add: tournament_pair_def ebind_def nth_e_def set_e_def example_eves_def
      EvolutionES_init_def mutate_def copy_mutate_def copy_winner_def example_bracket_def
      BracketEVES_init_def upt_rec)

theorem tournament_selection_witness:
  "select_teams first_permutation example_bracket () = Inr ([0], [1], ())
   \<and> map_sum id (\<lambda>(wl, ll, h, st). (wl, ll, h))
       (tournament_loop copy_mutate example_bracket [0] [1] [0 ..< 1]
          ([], [], Fin 0, example_eves))
     = Inr ([1], [0], PosInf)"
  using tournament_selection [OF draws_first_permutation, of example_bracket "()"]
    example_teams example_tournament
  by (simp add: example_bracket_def BracketEVES_init_def)

section \<open>Verification: the fidelity slot\<close>

lemma fill_point_keeps:
  "fill_point self st i js point = Inr point' \<Longrightarrow> k \<notin> set js \<Longrightarrow>
   point' ! k = point ! k"
proof (induction js arbitrary: point)
  case Nil
  then show ?case by simp
next
  case (Cons j js)
  from Cons.prems(1) obtain v where
    mid: "fill_point self st i js (point[j := v]) = Inr point'"
    by (auto simp: ebind_def set_e_def split: sum.splits option.splits if_splits)
  from Cons.IH [OF mid] Cons.prems(2) show ?case by simp
qed

lemma build_point_fidelity:
  assumes "build_point self st params i point = Inr point'"
    and "fidelity_index self \<notin> set (search_space_remove_fidelity self)"
  shows "point' ! fidelity_index self = params ! fidelity_index self"
proof -
  from assms(1) have inr: "fidelity_index self < length params"
    "fidelity_index self < length point"
    and fill: "fill_point self st i (search_space_remove_fidelity self)
             (point[fidelity_index self := params ! fidelity_index self]) = Inr point'"
    by (auto simp: build_point_def ebind_def nth_e_def set_e_def split: sum.splits if_splits)
  from fill_point_keeps [OF fill assms(2)] inr show ?thesis by simp
qed

lemma dedup_loop_fidelity_aux:
  assumes "dedup_loop mutate_func self params i points state = Some y"
  shows "fidelity_index self \<notin> set (search_space_remove_fidelity self) \<longrightarrow>
         (\<forall>point' w' st'. y = Inr (point', w', st') \<longrightarrow>
            point' ! fidelity_index self = params ! fidelity_index self)"
  using assms
proof (induction mutate_func self params i points state y
    rule: dedup_loop.raw_induct [rotated 1, consumes 1, case_names step])
  case (step dedup mutate_func self params i points state y)
  obtain point n w st where s: "state = (point, n, w, st)" by (cases state)
  show ?case
  proof (intro allI impI)
    fix point' w' st'
    assume fid: "fidelity_index self \<notin> set (search_space_remove_fidelity self)"
    assume y: "y = Inr (point', w', st')"
    from step.hyps s y obtain p where bp: "build_point self st params i point = Inr p"
      by (auto split: sum.splits)
    show "point' ! fidelity_index self = params ! fidelity_index self"
    proof (cases "p \<in> set points")
      case True
      with step.hyps s y bp obtain st1 where
        "dedup mutate_func self params i points
           (p, n + 1, (if n + 1 > 10 then w + 1 else w), st1) = Some (Inr (point', w', st'))"
        by (auto split: sum.splits)
      from step.IH [OF this] fid show ?thesis by simp
    next
      case False
      with step.hyps s y bp have "p = point'" by simp
      with build_point_fidelity [OF bp fid] show ?thesis by simp
    qed
  qed
qed

lemma dedup_loop_fidelity:
  assumes "dedup_loop mutate_func self params i points state = Some (Inr (point', w', st'))"
    and "fidelity_index self \<notin> set (search_space_remove_fidelity self)"
  shows "point' ! fidelity_index self = params ! fidelity_index self"
  using dedup_loop_fidelity_aux [OF assms(1)] assms(2) by simp

lemma points_loop_fidelity:
  assumes "fidelity_index self \<notin> set (search_space_remove_fidelity self)"
  shows "points_loop mutate_func self rung idxs (points, w, st) = Some (Inr (points', w', st')) \<Longrightarrow>
     \<forall>i \<in> set idxs. i < length rung \<Longrightarrow>
     (\<exists>new. points' = points @ new \<and> length new = length idxs \<and>
        (\<forall>k < length idxs. new ! k ! fidelity_index self
            = snd (rung ! (idxs ! k)) ! fidelity_index self))"
proof (induction idxs arbitrary: points w st)
  case Nil
  then show ?case by simp
next
  case (Cons i idxs)
  from Cons.prems(2) have e: "nth_e rung i = Inr (rung ! i)"
    by (simp add: nth_e_def)
  from Cons.prems(1) e obtain point w1 st1 where
    d: "dedup_loop mutate_func self (snd (rung ! i)) i points
          (replicate (length (space_types self)) 0, 0, w, st) = Some (Inr (point, w1, st1))"
    and rest: "points_loop mutate_func self rung idxs (points @ [point], w1, st1)
          = Some (Inr (points', w', st'))"
    by (auto split: option.splits sum.splits)
  from Cons.IH [OF rest] Cons.prems(2)
  obtain new where n: "points' = (points @ [point]) @ new" "length new = length idxs"
    "\<forall>k < length idxs. new ! k ! fidelity_index self
        = snd (rung ! (idxs ! k)) ! fidelity_index self"
    by auto
  have f: "point ! fidelity_index self = snd (rung ! i) ! fidelity_index self"
    using dedup_loop_fidelity [OF d assms] .
  have "\<forall>k < length (i # idxs). (point # new) ! k ! fidelity_index self
            = snd (rung ! ((i # idxs) ! k)) ! fidelity_index self"
    using f n(3) by (auto simp: nth_Cons split: nat.splits)
  then show ?case
    using n by (intro exI [of _ "point # new"]) simp
qed

text \<open>
  C5. For a bracket as \<open>BracketEVES.__init__\<close> builds it, whatever the mutation
  function and the generator: when \<open>get_candidates\<close> returns a non-empty list, it holds
  one vector for each of the first \<open>min(nums_population, len(rung))\<close> rung entries, and
  the fidelity slot of each vector is the fidelity value of the parameter vector of
  its rung entry.
\<close>

theorem get_candidates_fidelity:
  assumes run: "get_candidates permutation mutate_func has_rung_filled self rungs rung_id st
             = Some (Inr (points, w, st'))"
    and ne: "points \<noteq> []"
    and self: "self = BracketEVES_init space fid n mf af"
  shows "rung_id < length rungs
       \<and> length points = min n (length (rungs ! rung_id))
       \<and> (\<forall>i < length points.
             points ! i ! fid = snd (rungs ! rung_id ! i) ! fid)"
proof -
  have fid: "fidelity_index self \<notin> set (search_space_remove_fidelity self)"
    "fidelity_index self = fid" "nums_population self = n"
    by (simp_all add: self BracketEVES_init_def)
  from run ne have nf: "\<not> has_rung_filled (rung_id + 1)"
    by (auto simp: get_candidates_def split: if_splits)
  with run have inr: "rung_id < length rungs"
    by (auto simp: get_candidates_def nth_e_def split: if_splits)
  let ?rung = "rungs ! rung_id"
  let ?range = "if length ?rung > n then n else length ?rung"
  from run nf inr fid(3) obtain st3 where
    loop: "points_loop mutate_func self ?rung [0 ..< ?range] ([], 0, st3)
             = Some (Inr (points, w, st'))"
    by (auto simp: get_candidates_def nth_e_def Let_def split: sum.splits if_splits)
  have "\<forall>i \<in> set [0 ..< ?range]. i < length ?rung" by auto
  from points_loop_fidelity [OF fid(1) loop this]
  have len: "length points = ?range"
    and slots: "\<forall>k < ?range. points ! k ! fidelity_index self
                  = snd (?rung ! ([0 ..< ?range] ! k)) ! fidelity_index self"
    by auto
  have "\<forall>i < length points. points ! i ! fid = snd (?rung ! i) ! fid"
    using len slots fid(2) by auto
  with inr len show ?thesis by auto
qed

lemma example_ssrf: "search_space_remove_fidelity example_bracket = [0]"
  "fidelity_index example_bracket = 1" "nums_population example_bracket = 2"
  "nums_comp_pairs example_bracket = 1" "space_types example_bracket = [''real'', ''fidelity'']"
  by (simp_all add: example_bracket_def BracketEVES_init_def upt_rec)

lemma example_run:
  "\<exists>w st'. get_candidates first_permutation keep_mutate (\<lambda>k. False) example_bracket
       example_rungs 0 example_eves = Some (Inr ([[5, 1], [7, 1]], w, st'))"
  by (simp add: get_candidates_def example_rungs_def example_ssrf example_eves_def
      EvolutionES_init_def ebind_def nth_e_def set_e_def upt_rec eval_nat_numeral
      select_teams_def choice_def first_permutation_def tournament_pair_def mutate_def
      keep_mutate_def record_hurdle_def dedup_loop.simps build_point_def)


theorem get_candidates_fidelity_witness:
  "(\<exists>w st'. get_candidates first_permutation keep_mutate (\<lambda>k. False) example_bracket
       example_rungs 0 example_eves = Some (Inr ([[5, 1], [7, 1]], w, st')))
   \<and> [[5, 1], [7, 1 :: real]] ! 1 ! 1 = snd (example_rungs ! 0 ! 1) ! 1"
proof -
  from example_run obtain w st' where
    run: "get_candidates first_permutation keep_mutate (\<lambda>k. False) example_bracket
       example_rungs 0 example_eves = Some (Inr ([[5, 1], [7, 1]], w, st'))"
    by blast
  have "[[5, 1], [7, 1 :: real]] \<noteq> []" by simp
  from get_candidates_fidelity [OF run this example_bracket_def]
  have "[[5, 1], [7, 1 :: real]] ! 1 ! 1 = snd (example_rungs ! 0 ! 1) ! 1"
    by (simp add: example_rungs_def)
  with run show ?thesis by blast
qed

section \<open>Verification: the duplicate loop\<close>

text \<open>
  With a population of two, the results \<open>(1, [5, 1])\<close> and \<open>(2, [7, 1])\<close> and a
  mutation function that only copies the winner to the loser, the tournament leaves both
  slots at 5. The second point then duplicates the first however often it is mutated
  and built again.
\<close>

lemma copy_mutate_keeps:
  assumes "population st 0 = Some [5, 5]"
  shows "\<exists>st'. mutate copy_mutate example_bracket st 0 1 = Inr st'
           \<and> population st' 0 = Some [5, 5]"
  using assms
  by (simp add: mutate_def copy_mutate_def copy_winner_def example_ssrf ebind_def nth_e_def
      set_e_def)

lemma build_point_duplicate:
  assumes "population st 0 = Some [5, 5]" and "length point = 2"
  shows "build_point example_bracket st [7, 1] 1 point = Inr [5, 1]"
proof -
  obtain a b where "point = [a, b]"
    using assms(2) by (cases point; cases "tl point") auto
  then show ?thesis
    using assms(1)
    by (simp add: build_point_def example_ssrf ebind_def nth_e_def set_e_def)
qed

lemma dedup_loop_never_returns:
  assumes "dedup_loop mutate_func self params i points state = Some y"
  shows "\<not> (mutate_func = copy_mutate \<and> self = example_bracket \<and> params = [7, 1] \<and> i = 1
            \<and> points = [[5, 1]]
            \<and> length (fst state) = 2
            \<and> population (snd (snd (snd state))) 0 = Some [5, 5])"
  using assms
proof (induction mutate_func self params i points state y
    rule: dedup_loop.raw_induct [rotated 1, consumes 1, case_names step])
  case (step dedup mutate_func self params i points state y)
  show ?case
  proof
    assume inv: "mutate_func = copy_mutate \<and> self = example_bracket \<and> params = [7, 1] \<and> i = 1
            \<and> points = [[5, 1]]
            \<and> length (fst state) = 2
            \<and> population (snd (snd (snd state))) 0 = Some [5, 5]"
    obtain point n w st where s: "state = (point, n, w, st)" by (cases state)
    from inv s have pop: "population st 0 = Some [5, 5]" and len: "length point = 2"
      by simp_all
    note bp = build_point_duplicate [OF pop len]
    from copy_mutate_keeps [OF pop] obtain st1 where
      m: "mutate copy_mutate example_bracket st 0 1 = Inr st1"
      and pop1: "population st1 0 = Some [5, 5]"
      by blast
    from step.hyps inv s bp m have
      next_call: "dedup copy_mutate example_bracket [7, 1] 1 [[5, 1]]
         ([5, 1], n + 1, (if n + 1 > 10 then w + 1 else w), st1) = Some y"
      by simp
    from step.IH [OF next_call] pop1 show False by simp
  qed
qed

lemma dedup_loop_diverges:
  assumes "population st 0 = Some [5, 5]" and "length point = 2"
  shows "dedup_loop copy_mutate example_bracket [7, 1] (Suc 0) [[5, 1]] (point, n, w, st)
           = None"
proof (cases "dedup_loop copy_mutate example_bracket [7, 1] (Suc 0) [[5, 1]]
                (point, n, w, st)")
  case None
  then show ?thesis .
next
  case (Some y)
  from dedup_loop_never_returns [OF Some] assms show ?thesis by simp
qed

lemma dedup_loop_first:
  assumes "population st 0 = Some [5, 5]"
  shows "dedup_loop mutate_func example_bracket [5, 1] 0 [] ([0, 0], 0, w, st)
           = Some (Inr ([5, 1], w, st))"
  using assms
  by (subst dedup_loop.simps)
     (simp add: build_point_def example_ssrf ebind_def nth_e_def set_e_def)

text \<open>
  C1 does not hold of the code: nothing leaves the loop \<open>while True\<close> after the
  tenth duplicate (the branch that logs the warning has no \<open>break\<close>), and on this
  input \<open>get_candidates\<close> never returns.
\<close>

theorem get_candidates_never_returns:
  "get_candidates first_permutation copy_mutate (\<lambda>k. False) example_bracket
     example_rungs 0 example_eves = None"
  by (simp add: get_candidates_def example_rungs_def example_ssrf example_eves_def
      EvolutionES_init_def ebind_def nth_e_def set_e_def upt_rec eval_nat_numeral
      select_teams_def choice_def first_permutation_def tournament_pair_def mutate_def
      copy_mutate_def copy_winner_def record_hurdle_def
      dedup_loop_first dedup_loop_diverges)

end
